theory Spec2Isabelle
  imports Main
begin

section \<open>JavaScript strings\<close>

text \<open>
  A JavaScript string is a sequence of UTF-16 code units.  The scripts handled by the
  server contain Hangul marker comments, so a string is modelled as the list of its code
  units (natural numbers); \<open>js\<close> embeds an ASCII literal.
\<close>

type_synonym jstring = "nat list"

definition js :: "string \<Rightarrow> jstring" where
  "js s = map of_char s"

text \<open>\<open>a || b\<close> on strings: the empty string is the only falsy string.\<close>

definition or_else :: "jstring \<Rightarrow> jstring \<Rightarrow> jstring" where
  "or_else a b = (if a \<noteq> [] then a else b)"

text \<open>\<open>s.split('\n')\<close> (separator: one code unit) and \<open>xs.join(sep)\<close>.\<close>

fun js_split :: "nat \<Rightarrow> jstring \<Rightarrow> jstring list" where
  "js_split sep [] = [[]]"
| "js_split sep (c # cs) =
     (if c = sep then [] # js_split sep cs
      else (case js_split sep cs of
              [] \<Rightarrow> [[c]]
            | l # ls \<Rightarrow> (c # l) # ls))"

fun js_join :: "jstring \<Rightarrow> jstring list \<Rightarrow> jstring" where
  "js_join sep [] = []"
| "js_join sep [x] = x"
| "js_join sep (x # y # ys) = x @ sep @ js_join sep (y # ys)"

definition startsWith :: "jstring \<Rightarrow> jstring \<Rightarrow> bool" where
  "startsWith s p = (take (length p) s = p)"

definition endsWith :: "jstring \<Rightarrow> jstring \<Rightarrow> bool" where
  "endsWith s p = (length p \<le> length s \<and> drop (length s - length p) s = p)"

text \<open>
  \<open>s.replace(pat, rep)\<close> with a string pattern: only the first occurrence is replaced.
  (The replacement strings of the program contain no \<open>$\<close> pattern.)
\<close>

fun js_replace :: "jstring \<Rightarrow> jstring \<Rightarrow> jstring \<Rightarrow> jstring" where
  "js_replace [] pat rep = (if pat = [] then rep else [])"
| "js_replace (c # cs) pat rep =
     (if startsWith (c # cs) pat then rep @ drop (length pat) (c # cs)
      else c # js_replace cs pat rep)"

text \<open>\<open>s.indexOf(pat)\<close>: where the first occurrence starts; the result \<open>-1\<close> is \<open>None\<close>.\<close>

fun indexOf :: "jstring \<Rightarrow> jstring \<Rightarrow> nat option" where
  "indexOf [] pat = (if pat = [] then Some 0 else None)"
| "indexOf (c # cs) pat =
     (if startsWith (c # cs) pat then Some 0 else map_option Suc (indexOf cs pat))"

text \<open>\<open>s.replace(/[:.]/g, '-')\<close>: every colon and dot becomes a hyphen.\<close>

definition replace_colons_dots :: "jstring \<Rightarrow> jstring" where
  "replace_colons_dots s = map (\<lambda>c. if c = 58 \<or> c = 46 then 45 else c) s"

text \<open>Template interpolation of an integral number: its decimal digits.\<close>

fun digits :: "nat \<Rightarrow> jstring" where
  "digits n = (if n < 10 then [48 + n] else digits (n div 10) @ [48 + n mod 10])"

declare digits.simps [simp del]

definition show_int :: "int \<Rightarrow> jstring" where
  "show_int i = (if i < 0 then 45 # digits (nat (- i)) else digits (nat i))"

text \<open>\<open>xs.slice(a, b)\<close> for integral arguments, negative ones counting from the end.\<close>

definition js_slice :: "'a list \<Rightarrow> int \<Rightarrow> int \<Rightarrow> 'a list" where
  "js_slice xs a b =
     (let n = int (length xs);
          k = (if a < 0 then max (n + a) 0 else min a n);
          final = (if b < 0 then max (n + b) 0 else min b n)
      in take (nat (final - k)) (drop (nat k) xs))"

text \<open>\<open>xs.splice(i, 0, a, b, c)\<close>: insertion without deletion, the index clamped.\<close>

definition splice_insert :: "'a list \<Rightarrow> nat \<Rightarrow> 'a list \<Rightarrow> 'a list" where
  "splice_insert xs i new = take i xs @ new @ drop i xs"

text \<open>\<open>xs.findIndex(p)\<close>; the result \<open>-1\<close> is \<open>None\<close>.\<close>

fun findIndex :: "('a \<Rightarrow> bool) \<Rightarrow> 'a list \<Rightarrow> nat option" where
  "findIndex p [] = None"
| "findIndex p (x # xs) = (if p x then Some 0 else map_option Suc (findIndex p xs))"

section \<open>Regular expressions of the program\<close>

text \<open>
  The regular expressions of the source use only literals, \<open>\s*\<close>, \<open>\s+\<close>, alternation,
  the anchor \<open>^\<close> and the flag \<open>i\<close>.  A pattern is a matcher in continuation style: it
  takes what must match the rest of the input.  \<open>rx_search\<close> tries every start position
  (an unanchored \<open>test\<close>), as the backtracking engine does.
\<close>

text \<open>The class \<open>\s\<close>: the white space and line terminator code units of ECMAScript.\<close>

definition is_ws :: "nat \<Rightarrow> bool" where
  "is_ws c = (c \<in> set [9, 10, 11, 12, 13, 32, 160, 5760, 8232, 8233, 8239, 8287, 12288, 65279]
              \<or> (8192 \<le> c \<and> c \<le> 8202))"

text \<open>
  Case folding of the flag \<open>i\<close> (without \<open>u\<close>): a code unit is compared through its upper
  case, and a code unit from 128 on is never folded to one below 128.  Every literal of
  the program consists of ASCII and Hangul code units, which only ASCII letters can equal
  after folding, so folding the ASCII lower case letters is exact for them.
\<close>

definition canonicalize :: "nat \<Rightarrow> nat" where
  "canonicalize c = (if 97 \<le> c \<and> c \<le> 122 then c - 32 else c)"

definition rx_end :: "jstring \<Rightarrow> bool" where
  "rx_end s = True"

definition rx_lit :: "jstring \<Rightarrow> (jstring \<Rightarrow> bool) \<Rightarrow> jstring \<Rightarrow> bool" where
  "rx_lit l k s = (length l \<le> length s
                   \<and> map canonicalize (take (length l) s) = map canonicalize l
                   \<and> k (drop (length l) s))"

fun rx_ws_star :: "(jstring \<Rightarrow> bool) \<Rightarrow> jstring \<Rightarrow> bool" where
  "rx_ws_star k [] = k []"
| "rx_ws_star k (c # cs) = (k (c # cs) \<or> (is_ws c \<and> rx_ws_star k cs))"

definition rx_ws_plus :: "(jstring \<Rightarrow> bool) \<Rightarrow> jstring \<Rightarrow> bool" where
  "rx_ws_plus k s = (case s of [] \<Rightarrow> False | c # cs \<Rightarrow> is_ws c \<and> rx_ws_star k cs)"

fun rx_search :: "(jstring \<Rightarrow> bool) \<Rightarrow> jstring \<Rightarrow> bool" where
  "rx_search m [] = m []"
| "rx_search m (c # cs) = (m (c # cs) \<or> rx_search m cs)"

subsection \<open>The section markers\<close>

text \<open>
  The Hangul literals of the markers, as code units:
  U+CD08 U+AE30 space U+C124 U+C815 (initial settings),
  U+B370 U+C774 U+D130 space U+B85C U+B4DC (data load),
  U+BCC0 U+C218 space U+C0DD U+C131 (variable creation), U+C804 U+CC98 U+B9AC (preprocessing),
  U+AE30 U+C220 U+D1B5 U+ACC4 (descriptive statistics),
  U+C8FC U+C694 space U+BD84 U+C11D (main analysis),
  U+ACB0 U+ACFC space U+C800 U+C7A5 (saving results).
\<close>

definition lit_setup :: jstring where "lit_setup = [52488, 44592, 32, 49444, 51221]"
definition lit_data :: jstring where "lit_data = [45936, 51060, 53552, 32, 47196, 46300]"
definition lit_variable :: jstring where "lit_variable = [48320, 49688, 32, 49373, 49457]"
definition lit_preprocess :: jstring where "lit_preprocess = [51204, 52376, 47532]"
definition lit_descriptive :: jstring where "lit_descriptive = [44592, 49696, 53685, 44228]"
definition lit_analysis :: jstring where "lit_analysis = [51452, 50836, 32, 48516, 49437]"
definition lit_output :: jstring where "lit_output = [44208, 44284, 32, 51200, 51109]"

text \<open>\<open>/\*\s*LIT/i\<close>: a star, any white space, the literal.\<close>

definition rx_star_comment :: "jstring \<Rightarrow> jstring \<Rightarrow> bool" where
  "rx_star_comment l = rx_lit [42] (rx_ws_star (rx_lit l rx_end))"

text \<open>
  The table \<open>sectionMarkers\<close>, each entry as its \<open>test\<close>.  In the marker of
  \<open>preprocessing\<close> the alternation splits the whole pattern: a line matches when it has
  the star comment of the first literal, or the second literal anywhere.
\<close>

definition marker_setup :: "jstring \<Rightarrow> bool" where
  "marker_setup = rx_search (rx_star_comment lit_setup)"
definition marker_data :: "jstring \<Rightarrow> bool" where
  "marker_data = rx_search (rx_star_comment lit_data)"
definition marker_preprocessing :: "jstring \<Rightarrow> bool" where
  "marker_preprocessing =
     rx_search (\<lambda>s. rx_star_comment lit_variable s \<or> rx_lit lit_preprocess rx_end s)"
definition marker_descriptive :: "jstring \<Rightarrow> bool" where
  "marker_descriptive = rx_search (rx_star_comment lit_descriptive)"
definition marker_analysis :: "jstring \<Rightarrow> bool" where
  "marker_analysis = rx_search (rx_star_comment lit_analysis)"
definition marker_output :: "jstring \<Rightarrow> bool" where
  "marker_output = rx_search (rx_star_comment lit_output)"

text \<open>
  \<open>sectionMarkers[sectionName]\<close> on the object literal: one of the six regular
  expressions, a value inherited from \<open>Object.prototype\<close> (truthy, but without a
  \<open>test\<close> method), or \<open>undefined\<close>.
\<close>

datatype marker_lookup = RegExp "jstring \<Rightarrow> bool" | Inherited | Undefined

definition section_names :: "jstring list" where
  "section_names = [js ''setup'', js ''data'', js ''preprocessing'', js ''descriptive'',
                    js ''analysis'', js ''output'']"

definition object_prototype_keys :: "jstring list" where
  "object_prototype_keys =
     [js ''constructor'', js ''__defineGetter__'', js ''__defineSetter__'',
      js ''hasOwnProperty'', js ''__lookupGetter__'', js ''__lookupSetter__'',
      js ''isPrototypeOf'', js ''propertyIsEnumerable'', js ''toString'', js ''valueOf'',
      js ''__proto__'', js ''toLocaleString'']"

definition sectionMarkers :: "jstring \<Rightarrow> marker_lookup" where
  "sectionMarkers sectionName =
     (if sectionName = js ''setup'' then RegExp marker_setup
      else if sectionName = js ''data'' then RegExp marker_data
      else if sectionName = js ''preprocessing'' then RegExp marker_preprocessing
      else if sectionName = js ''descriptive'' then RegExp marker_descriptive
      else if sectionName = js ''analysis'' then RegExp marker_analysis
      else if sectionName = js ''output'' then RegExp marker_output
      else if sectionName \<in> set object_prototype_keys then Inherited
      else Undefined)"

section \<open>Errors, storage and the environment\<close>

text \<open>
  Every \<open>throw\<close> of the source and every rejection of a Node primitive is a value of
  \<open>error\<close>; \<open>message\<close> is the text of the thrown \<open>Error\<close>.  \<open>ENOENT\<close> is the rejection of
  a file system call on an absent path (\<open>ENOENT2\<close> that of \<open>copyFile\<close>, which names both
  paths), \<open>EPERM\<close> the rejection of a call the system does not permit on a file that is
  there, \<open>NotAFunction\<close> the \<open>TypeError\<close> of calling \<open>test\<close> on a value that has none,
  and \<open>SelectedLinesFailed\<close> the re-throw of \<open>executeSelectedLines\<close> around the error it
  caught.
\<close>

datatype error =
    ENOENT jstring jstring
  | ENOENT2 jstring jstring jstring
  | EPERM jstring jstring
  | NotAFunction
  | UnknownSection jstring
  | SectionNotFound jstring
  | InvalidLineNumbers int int nat
  | StartAfterEnd int int
  | SpawnFailed jstring
  | SelectedLinesFailed error
  | ArgumentsRequired
  | EditArgumentsRequired
  | VariableParamsRequired
  | AnalysisParamsRequired
  | SectionParamsRequired

fun message :: "error \<Rightarrow> jstring" where
  "message (ENOENT syscall p) =
     js ''ENOENT: no such file or directory, '' @ syscall @ js '' '' @ [39] @ p @ [39]"
| "message (ENOENT2 syscall p q) =
     js ''ENOENT: no such file or directory, '' @ syscall @ js '' '' @ [39] @ p @ [39]
     @ js '' -> '' @ [39] @ q @ [39]"
| "message (EPERM syscall p) =
     js ''EPERM: operation not permitted, '' @ syscall @ js '' '' @ [39] @ p @ [39]"
| "message NotAFunction = js ''marker.test is not a function''"
| "message (UnknownSection n) =
     [50508, 32, 49688, 32, 50630, 45716, 32, 49465, 49496, 58, 32] @ n"
| "message (SectionNotFound n) =
     [49465, 49496, 51012, 32, 52286, 51012, 32, 49688, 32, 50630, 49845, 45768, 45796, 58, 32]
     @ n"
| "message (InvalidLineNumbers a b n) =
     [51096, 47803, 46108, 32, 46972, 51064, 32, 48264, 54840, 58, 32] @ show_int a @ js ''-''
     @ show_int b @ [32, 40, 54028, 51068, 51008, 32, 49, 45] @ show_int (int n)
     @ [32, 46972, 51064, 41]"
| "message (StartAfterEnd a b) =
     [49884, 51089, 32, 46972, 51064, 40] @ show_int a
     @ [41, 51060, 32, 45149, 32, 46972, 51064, 40] @ show_int b
     @ [41, 48372, 45796, 32, 53373, 45768, 45796]"
| "message (SpawnFailed m) =
     [83, 116, 97, 116, 97, 32, 49892, 54665, 32, 49892, 54056, 58, 32] @ m"
| "message (SelectedLinesFailed e) =
     [49440, 53469, 46108, 32, 46972, 51064, 32, 49892, 54665, 32, 49892, 54056, 58, 32]
     @ message e"
| "message ArgumentsRequired =
     [47588, 44060, 48320, 49688, 44032, 32, 54596, 50836, 54633, 45768, 45796]"
| "message EditArgumentsRequired =
     js ''file_path, operation, params'' @ [44032, 32, 54596, 50836, 54633, 45768, 45796]"
| "message VariableParamsRequired =
     [48320, 49688, 47749, 44284, 32, 51221, 51032, 44032, 32, 54596, 50836, 54633, 45768, 45796]"
| "message AnalysisParamsRequired =
     [48516, 49437, 32, 50976, 54805, 44284, 32, 47749, 49464, 44032, 32, 54596, 50836, 54633,
      45768, 45796]"
| "message SectionParamsRequired =
     [49465, 49496, 47749, 44284, 32, 45236, 50857, 51060, 32, 54596, 50836, 54633, 45768, 45796]"

text \<open>
  The classes of the error taxonomy: a \<open>NotFoundError\<close> is an absent file or section
  marker, a \<open>RangeError\<close> a violated line bound.
\<close>

fun is_not_found :: "error \<Rightarrow> bool" where
  "is_not_found (ENOENT syscall p) = True"
| "is_not_found (ENOENT2 syscall p q) = True"
| "is_not_found (SectionNotFound n) = True"
| "is_not_found e = False"

fun is_range_error :: "error \<Rightarrow> bool" where
  "is_range_error (InvalidLineNumbers a b n) = True"
| "is_range_error (StartAfterEnd a b) = True"
| "is_range_error (SelectedLinesFailed e) = is_range_error e"
| "is_range_error e = False"

text \<open>
  The outcome of \<open>spawn\<close> and of waiting for the process: the event \<open>error\<close> (the
  executable cannot be launched; storage is untouched), or the event \<open>close\<close> with the exit
  code (\<open>null\<close> after a signal), what was written to the two streams, and the storage the
  process left behind.  A process that never closes is not modelled.
\<close>

datatype proc_outcome =
    SpawnError jstring
  | Close "int option" jstring jstring "jstring \<rightharpoonup> jstring"

text \<open>
  What the program takes from its surroundings: the configuration, Node's \<open>path\<close> module
  and the interpreter process (command, arguments, working directory, storage at the
  start).
\<close>

record env =
  workspaceDir :: jstring
  stataPath :: jstring
  platform :: jstring
  path_isAbsolute :: "jstring \<Rightarrow> bool"
  path_join :: "jstring \<Rightarrow> jstring \<Rightarrow> jstring"
  path_basename :: "jstring \<Rightarrow> jstring"
  path_basename_ext :: "jstring \<Rightarrow> jstring \<Rightarrow> jstring"
  path_dirname :: "jstring \<Rightarrow> jstring"
  spawn :: "jstring \<Rightarrow> jstring list \<Rightarrow> jstring \<Rightarrow> (jstring \<rightharpoonup> jstring) \<Rightarrow> proc_outcome"

text \<open>\<open>new Date()\<close> at the time of a call, through the two renderings the source uses.\<close>

record clock =
  toISOString :: jstring
  toLocaleString :: jstring

text \<open>
  The state the program acts on: the files (a path is absent or has a content), what was
  written with \<open>console.error\<close> (the text and the error object), the processes spawned so
  far (command, arguments, working directory), and the paths whose unlink the system
  rejects while the file is there (a file that is locked, busy or protected).  The model
  of storage is flat: there are no directories, a write always succeeds, and a read or a
  copy fails only where its file is absent.  An unlink fails where its file is absent,
  and where the system rejects it.
\<close>

record world =
  files :: "jstring \<rightharpoonup> jstring"
  console :: "(jstring \<times> error) list"
  spawned :: "(jstring \<times> jstring list \<times> jstring) list"
  unlink_denied :: "jstring set"

definition fs_readFile :: "world \<Rightarrow> jstring \<Rightarrow> error + jstring" where
  "fs_readFile w p = (case files w p of
                        None \<Rightarrow> Inl (ENOENT (js ''open'') p)
                      | Some c \<Rightarrow> Inr c)"

definition fs_writeFile :: "world \<Rightarrow> jstring \<Rightarrow> jstring \<Rightarrow> world" where
  "fs_writeFile w p c = w\<lparr>files := (files w)(p \<mapsto> c)\<rparr>"

definition fs_copyFile :: "world \<Rightarrow> jstring \<Rightarrow> jstring \<Rightarrow> error + world" where
  "fs_copyFile w src dst = (case files w src of
                              None \<Rightarrow> Inl (ENOENT2 (js ''copyfile'') src dst)
                            | Some c \<Rightarrow> Inr (w\<lparr>files := (files w)(dst \<mapsto> c)\<rparr>))"

definition fs_unlink :: "world \<Rightarrow> jstring \<Rightarrow> error + world" where
  "fs_unlink w p = (case files w p of
                      None \<Rightarrow> Inl (ENOENT (js ''unlink'') p)
                    | Some c \<Rightarrow>
                        if p \<in> unlink_denied w then Inl (EPERM (js ''unlink'') p)
                        else Inr (w\<lparr>files := (files w)(p := None)\<rparr>))"

section \<open>FileManager\<close>

definition backupsDir :: "env \<Rightarrow> jstring" where
  "backupsDir E = path_join E (workspaceDir E) (js ''.stata-backups'')"

definition resolvePath :: "env \<Rightarrow> jstring \<Rightarrow> jstring" where
  "resolvePath E filePath =
     (if path_isAbsolute E filePath then filePath else path_join E (workspaceDir E) filePath)"

definition readFile :: "env \<Rightarrow> world \<Rightarrow> jstring \<Rightarrow> error + jstring" where
  "readFile E w filePath = fs_readFile w (resolvePath E filePath)"

definition writeFile :: "env \<Rightarrow> world \<Rightarrow> jstring \<Rightarrow> jstring \<Rightarrow> world" where
  "writeFile E w filePath content = fs_writeFile w (resolvePath E filePath) content"

text \<open>
  \<open>createBackup\<close> copies the file to the backup directory, under its base name, the time
  stamp and \<open>.bak\<close>; \<open>backupPath\<close> is that path.
\<close>

definition backupPath :: "env \<Rightarrow> clock \<Rightarrow> jstring \<Rightarrow> jstring" where
  "backupPath E now filePath =
     (let resolvedPath = resolvePath E filePath;
          timestamp = replace_colons_dots (toISOString now);
          fileName = path_basename E resolvedPath
      in path_join E (backupsDir E) (fileName @ js ''.'' @ timestamp @ js ''.bak''))"

definition createBackup :: "env \<Rightarrow> clock \<Rightarrow> world \<Rightarrow> jstring \<Rightarrow> (error + jstring) \<times> world" where
  "createBackup E now w filePath =
     (case fs_copyFile w (resolvePath E filePath) (backupPath E now filePath) of
        Inl e \<Rightarrow> (Inl e, w)
      | Inr w' \<Rightarrow> (Inr (backupPath E now filePath), w'))"

section \<open>DoFileEditor\<close>

text \<open>
  The loop of \<open>insertSection\<close> for the position \<open>after\<close>: the index moves on while it is
  inside the script and the line there does not start with a star.
\<close>

function advance :: "jstring list \<Rightarrow> nat \<Rightarrow> nat" where
  "advance lines insertIndex =
     (if insertIndex < length lines \<and> \<not> startsWith (lines ! insertIndex) [42]
      then advance lines (insertIndex + 1) else insertIndex)"
  by pat_completeness auto
termination
  by (relation "measure (\<lambda>(lines, insertIndex). length lines - insertIndex)") auto

declare advance.simps [simp del]

text \<open>
  \<open>position\<close> is the optional parameter (default \<open>after\<close>); any other string leaves the
  insertion index at the marker, as \<open>before\<close> does.
\<close>

definition insertIndex_of :: "jstring list \<Rightarrow> nat \<Rightarrow> jstring option \<Rightarrow> nat" where
  "insertIndex_of lines markerIndex position =
     (if (case position of None \<Rightarrow> js ''after'' | Some p \<Rightarrow> p) = js ''after''
      then advance lines (markerIndex + 1) else markerIndex)"

definition insertSection ::
  "env \<Rightarrow> world \<Rightarrow> jstring \<Rightarrow> jstring \<Rightarrow> jstring \<Rightarrow> jstring option \<Rightarrow> (error + unit) \<times> world" where
  "insertSection E w filePath sectionName content position =
     (case readFile E w filePath of
        Inl e \<Rightarrow> (Inl e, w)
      | Inr currentContent \<Rightarrow>
          let lines = js_split 10 currentContent in
          (case sectionMarkers sectionName of
             Undefined \<Rightarrow> (Inl (UnknownSection sectionName), w)
           | Inherited \<Rightarrow> (Inl NotAFunction, w)
           | RegExp marker \<Rightarrow>
               (case findIndex marker lines of
                  None \<Rightarrow> (Inl (SectionNotFound sectionName), w)
                | Some markerIndex \<Rightarrow>
                    let insertIndex = insertIndex_of lines markerIndex position;
                        lines' = splice_insert lines insertIndex [[], content, []]
                    in (Inr (), writeFile E w filePath (js_join [10] lines')))))"

text \<open>\<open>label\<close> is optional; an empty label is falsy and adds nothing.\<close>

definition addVariable ::
  "env \<Rightarrow> world \<Rightarrow> jstring \<Rightarrow> jstring \<Rightarrow> jstring \<Rightarrow> jstring option \<Rightarrow> (error + unit) \<times> world" where
  "addVariable E w filePath varName definition0 label =
     (let varCode = [42, 32, 48320, 49688, 32, 49373, 49457, 58, 32] @ varName @ [10]
                    @ definition0 @ [10]
                    @ (case label of
                         None \<Rightarrow> []
                       | Some l \<Rightarrow> if l \<noteq> []
                                   then js ''label variable '' @ varName @ js '' '' @ [34] @ l @ [34]
                                   else [])
      in insertSection E w filePath (js ''preprocessing'') varCode None)"

definition addAnalysis ::
  "env \<Rightarrow> world \<Rightarrow> jstring \<Rightarrow> jstring \<Rightarrow> jstring \<Rightarrow> (error + unit) \<times> world" where
  "addAnalysis E w filePath analysisType specification =
     (let analysisCode = js ''* '' @ analysisType @ [32, 48516, 49437] @ [10] @ specification
      in insertSection E w filePath (js ''analysis'') analysisCode None)"

section \<open>StataExecutor\<close>

text \<open>The field \<open>output\<close> of the source is \<open>outputText\<close> here.\<close>

record StataExecutionResult =
  success :: bool
  outputText :: jstring
  logPath :: jstring

text \<open>
  \<open>executeDoFile\<close>: the promise rejects on the event \<open>error\<close> and resolves on the event
  \<open>close\<close>, after reading the log file whose path is the script's with the first \<open>.do\<close>
  replaced.
\<close>

definition logPathOf :: "jstring \<Rightarrow> jstring" where
  "logPathOf doFilePath = js_replace doFilePath (js ''.do'') (js ''.log'')"

definition stata_args :: "env \<Rightarrow> jstring \<Rightarrow> jstring list" where
  "stata_args E doFilePath =
     (if platform E = js ''darwin'' then [js ''-b'', js ''do'', doFilePath]
      else [js ''/e'', js ''do'', doFilePath])"

definition run_process :: "env \<Rightarrow> world \<Rightarrow> jstring \<Rightarrow> proc_outcome" where
  "run_process E w doFilePath =
     spawn E (stataPath E) (stata_args E doFilePath) (path_dirname E doFilePath) (files w)"

definition executeDoFile :: "env \<Rightarrow> world \<Rightarrow> jstring \<Rightarrow> (error + StataExecutionResult) \<times> world" where
  "executeDoFile E w doFilePath =
     (let w1 = w\<lparr>spawned := spawned w
                  @ [(stataPath E, stata_args E doFilePath, path_dirname E doFilePath)]\<rparr>
      in (case run_process E w doFilePath of
            SpawnError m \<Rightarrow> (Inl (SpawnFailed m), w1)
          | Close code out errorOutput files' \<Rightarrow>
              let w2 = w1\<lparr>files := files'\<rparr> in
              (case fs_readFile w2 (logPathOf doFilePath) of
                 Inr logContent \<Rightarrow>
                   (Inr \<lparr>success = (code = Some 0),
                         outputText = or_else logContent (or_else out errorOutput),
                         logPath = logPathOf doFilePath\<rparr>, w2)
               | Inl e \<Rightarrow>
                   (Inr \<lparr>success = False,
                         outputText = or_else errorOutput
                                        ([49892, 54665, 32, 50724, 47448, 58, 32] @ message e),
                         logPath = logPathOf doFilePath\<rparr>, w2))))"

text \<open>
  The pattern of \<open>hasSetup\<close>:
  \<open>/^\s*(clear\s+all|set\s+more\s+off|capture\s+log\s+close)/i\<close>, anchored at the start of
  the line.
\<close>

definition setup_pattern :: "jstring \<Rightarrow> bool" where
  "setup_pattern =
     rx_ws_star (\<lambda>s.
         rx_lit (js ''clear'') (rx_ws_plus (rx_lit (js ''all'') rx_end)) s
       \<or> rx_lit (js ''set'') (rx_ws_plus (rx_lit (js ''more'') (rx_ws_plus (rx_lit (js ''off'') rx_end)))) s
       \<or> rx_lit (js ''capture'')
            (rx_ws_plus (rx_lit (js ''log'') (rx_ws_plus (rx_lit (js ''close'') rx_end)))) s)"

text \<open>
  \<open>prepareExecutableCode\<close> in its parts: the test \<open>hasSetup\<close>, the header with the
  provenance, the setup block and its choice \<open>setupCode\<close>, the selected lines under their
  comments, and the trailer with the termination statement.
\<close>

definition hasSetup :: "jstring list \<Rightarrow> bool" where
  "hasSetup selectedLines = list_ex setup_pattern selectedLines"

definition header :: "jstring \<Rightarrow> int \<Rightarrow> int \<Rightarrow> clock \<Rightarrow> jstring" where
  "header originalFilePath startLine endLine now =
     [47] @ replicate 79 42 @ [10]
     @ [42, 32, 49440, 53469, 46108, 32, 46972, 51064, 32, 49892, 54665] @ [10]
     @ [42, 32, 50896, 48376, 32, 54028, 51068, 58, 32] @ originalFilePath @ [10]
     @ [42, 32, 49892, 54665, 32, 46972, 51064, 58, 32] @ show_int startLine @ js ''-''
     @ show_int endLine @ [10]
     @ [42, 32, 49373, 49457, 32, 49884, 44036, 58, 32] @ toLocaleString now @ [10]
     @ replicate 79 42 @ [47] @ [10] @ [10]"

definition setup_block :: jstring where
  "setup_block = [42, 32, 44592, 48376, 32, 49444, 51221] @ [10] @ js ''set more off'' @ [10]
                 @ js ''capture log close'' @ [10] @ [10]"

definition setupCode :: "jstring list \<Rightarrow> jstring" where
  "setupCode selectedLines = (if \<not> hasSetup selectedLines then setup_block else [])"

text \<open>The selected lines, each under the comment with its line number.\<close>

definition processedLines :: "int \<Rightarrow> jstring list \<Rightarrow> jstring list" where
  "processedLines startLine selectedLines =
     map (\<lambda>(index, line). js ''* Line '' @ show_int (startLine + int index) @ [10] @ line)
         (enumerate 0 selectedLines)"

definition trailer :: jstring where
  "trailer = [10, 10]
             @ [42, 32, 49440, 53469, 46108, 32, 46972, 51064, 32, 49892, 54665, 32, 50756, 47308]
             @ [10] @ js ''exit'' @ [10]"

definition prepareExecutableCode :: "jstring list \<Rightarrow> jstring \<Rightarrow> int \<Rightarrow> int \<Rightarrow> clock \<Rightarrow> jstring" where
  "prepareExecutableCode selectedLines originalFilePath startLine endLine now =
     header originalFilePath startLine endLine now @ setupCode selectedLines
     @ js_join [10] (processedLines startLine selectedLines) @ trailer"

text \<open>
  The path of the ephemeral script: beside the source, named after its base name, the
  range and the time stamp.
\<close>

definition tempFilePath :: "env \<Rightarrow> clock \<Rightarrow> jstring \<Rightarrow> int \<Rightarrow> int \<Rightarrow> jstring" where
  "tempFilePath E now filePath startLine endLine =
     (let timestamp = replace_colons_dots (toISOString now);
          tempFileName = js ''temp_'' @ path_basename_ext E filePath (js ''.do'') @ js ''_lines_''
                         @ show_int startLine @ js ''_'' @ show_int endLine @ js ''_''
                         @ timestamp @ js ''.do''
      in path_join E (path_dirname E filePath) tempFileName)"

text \<open>
  The \<open>finally\<close> block: the script is unlinked, then its log (a failure there is
  swallowed by \<open>.catch\<close>); a failure to unlink the script is written to the console and
  ends the block.
\<close>

definition cleanup :: "world \<Rightarrow> jstring \<Rightarrow> world" where
  "cleanup w tempPath =
     (case fs_unlink w tempPath of
        Inl e \<Rightarrow>
          w\<lparr>console := console w
                @ [([51076, 49884, 32, 54028, 51068, 32, 51221, 47532, 32, 49892, 54056, 58], e)]\<rparr>
      | Inr w1 \<Rightarrow>
          (case fs_unlink w1 (logPathOf tempPath) of
             Inl e \<Rightarrow> w1
           | Inr w2 \<Rightarrow> w2))"

text \<open>The banner that \<open>executeSelectedLines\<close> puts in front of the captured output.\<close>

definition enhancedOutput :: "jstring \<Rightarrow> int \<Rightarrow> int \<Rightarrow> jstring \<Rightarrow> jstring" where
  "enhancedOutput filePath startLine endLine out =
     [49440, 53469, 46108, 32, 46972, 51064, 32, 49892, 54665, 32, 44208, 44284, 58] @ [10]
     @ [54028, 51068, 58, 32] @ filePath @ [10]
     @ [46972, 51064, 58, 32] @ show_int startLine @ js ''-'' @ show_int endLine @ [10, 10] @ out"

text \<open>
  \<open>executeSelectedLines\<close>.  The line numbers are integers here: the tool declares them
  as numbers, and the fractional and non-finite numbers of JavaScript are left out.
\<close>

definition executeSelectedLines ::
  "env \<Rightarrow> clock \<Rightarrow> world \<Rightarrow> jstring \<Rightarrow> int \<Rightarrow> int \<Rightarrow> (error + StataExecutionResult) \<times> world" where
  "executeSelectedLines E now w filePath startLine endLine =
     (case fs_readFile w filePath of
        Inl e \<Rightarrow> (Inl (SelectedLinesFailed e), w)
      | Inr content \<Rightarrow>
          let lines = js_split 10 content in
          if startLine < 1 \<or> endLine < 1 \<or> startLine > int (length lines)
             \<or> endLine > int (length lines)
          then (Inl (SelectedLinesFailed
                       (InvalidLineNumbers startLine endLine (length lines))), w)
          else if startLine > endLine
          then (Inl (SelectedLinesFailed (StartAfterEnd startLine endLine)), w)
          else
            let selectedLines = js_slice lines (startLine - 1) endLine;
                tempPath = tempFilePath E now filePath startLine endLine;
                executableContent =
                  prepareExecutableCode selectedLines filePath startLine endLine now;
                w1 = fs_writeFile w tempPath executableContent
            in (case executeDoFile E w1 tempPath of
                  (Inr result, w2) \<Rightarrow>
                    (Inr (result\<lparr>outputText :=
                            enhancedOutput filePath startLine endLine (outputText result)\<rparr>),
                     cleanup w2 tempPath)
                | (Inl e, w2) \<Rightarrow> (Inl (SelectedLinesFailed e), cleanup w2 tempPath)))"

text \<open>
  The state in which \<open>executeSelectedLines\<close> starts the interpreter on a valid request:
  the ephemeral script has been written.
\<close>

definition staged :: "env \<Rightarrow> clock \<Rightarrow> world \<Rightarrow> jstring \<Rightarrow> jstring \<Rightarrow> int \<Rightarrow> int \<Rightarrow> world" where
  "staged E now w filePath content startLine endLine =
     fs_writeFile w (tempFilePath E now filePath startLine endLine)
       (prepareExecutableCode (js_slice (js_split 10 content) (startLine - 1) endLine)
          filePath startLine endLine now)"

section \<open>The tool \<open>edit_do_file\<close>\<close>

record EditParams =
  p_name :: "jstring option"
  p_definition :: "jstring option"
  p_label :: "jstring option"
  p_type :: "jstring option"
  p_specification :: "jstring option"
  p_section :: "jstring option"
  p_content :: "jstring option"
  p_position :: "jstring option"

record EditArgs =
  file_path :: "jstring option"
  operation :: "jstring option"
  params :: "EditParams option"

text \<open>\<open>!x\<close> on an optional string: \<open>undefined\<close> and the empty string are falsy.\<close>

definition falsy :: "jstring option \<Rightarrow> bool" where
  "falsy x = (case x of None \<Rightarrow> True | Some s \<Rightarrow> s = [])"

text \<open>The response text of the outer \<open>catch\<close>, and of a finished edit.\<close>

definition error_text :: "error \<Rightarrow> jstring" where
  "error_text e = [50724, 47448, 32, 48156, 49373, 58, 32] @ message e"

definition modified_text :: "jstring \<Rightarrow> jstring" where
  "modified_text updatedContent =
     [54028, 51068, 51060, 32, 49688, 51221, 46104, 50632, 49845, 45768, 45796, 46] @ [10, 10]
     @ [49688, 51221, 46108, 32, 45236, 50857, 58] @ [10] @ replicate 80 61 @ [10]
     @ updatedContent"

text \<open>The inner \<open>switch\<close> on the operation; no case matches any other string.\<close>

definition edit_operation ::
  "env \<Rightarrow> world \<Rightarrow> jstring \<Rightarrow> jstring \<Rightarrow> EditParams \<Rightarrow> (error + unit) \<times> world" where
  "edit_operation E w filePath op ps =
     (if op = js ''add_variable'' then
        (if falsy (p_name ps) \<or> falsy (p_definition ps) then (Inl VariableParamsRequired, w)
         else addVariable E w filePath (the (p_name ps)) (the (p_definition ps)) (p_label ps))
      else if op = js ''add_analysis'' then
        (if falsy (p_type ps) \<or> falsy (p_specification ps) then (Inl AnalysisParamsRequired, w)
         else addAnalysis E w filePath (the (p_type ps)) (the (p_specification ps)))
      else if op = js ''insert_section'' then
        (if falsy (p_section ps) \<or> falsy (p_content ps) then (Inl SectionParamsRequired, w)
         else insertSection E w filePath (the (p_section ps)) (the (p_content ps))
                (p_position ps))
      else (Inr (), w))"

definition edit_do_file :: "env \<Rightarrow> clock \<Rightarrow> world \<Rightarrow> EditArgs option \<Rightarrow> jstring \<times> world" where
  "edit_do_file E now w args =
     (case args of
        None \<Rightarrow> (error_text ArgumentsRequired, w)
      | Some a \<Rightarrow>
          if falsy (file_path a) \<or> falsy (operation a) \<or> params a = None
          then (error_text EditArgumentsRequired, w)
          else
            let filePath = the (file_path a); op = the (operation a); ps = the (params a) in
            (case createBackup E now w filePath of
               (Inl e, w1) \<Rightarrow> (error_text e, w1)
             | (Inr b, w1) \<Rightarrow>
                 (case edit_operation E w1 filePath op ps of
                    (Inl e, w2) \<Rightarrow> (error_text e, w2)
                  | (Inr u, w2) \<Rightarrow>
                      (case readFile E w2 filePath of
                         Inl e \<Rightarrow> (error_text e, w2)
                       | Inr updatedContent \<Rightarrow> (modified_text updatedContent, w2)))))"

section \<open>Notions of the specification\<close>

text \<open>
  The specification's placement rule for the position \<open>after\<close>, from its words: scan
  forward from the line after the marker while lines begin with the comment character,
  and insert after that run.
\<close>

definition spec_after_index :: "jstring list \<Rightarrow> nat \<Rightarrow> nat" where
  "spec_after_index lines markerIndex =
     markerIndex + 1
     + length (takeWhile (\<lambda>l. startsWith l [42]) (drop (markerIndex + 1) lines))"

text \<open>
  A section is present in a script when some line matches the marker of its name.  An
  edit request with complete parameters targets the section its operation inserts into:
  \<open>preprocessing\<close> for \<open>add_variable\<close>, \<open>analysis\<close> for \<open>add_analysis\<close>, the named section
  for \<open>insert_section\<close>.
\<close>

definition section_present :: "jstring \<Rightarrow> jstring \<Rightarrow> bool" where
  "section_present sectionName S =
     (case sectionMarkers sectionName of
        RegExp marker \<Rightarrow> list_ex marker (js_split 10 S)
      | _ \<Rightarrow> False)"

definition targets :: "jstring \<Rightarrow> EditParams \<Rightarrow> jstring \<Rightarrow> bool" where
  "targets op ps sectionName =
     (op = js ''add_variable'' \<and> \<not> falsy (p_name ps) \<and> \<not> falsy (p_definition ps)
        \<and> sectionName = js ''preprocessing''
      \<or> op = js ''add_analysis'' \<and> \<not> falsy (p_type ps) \<and> \<not> falsy (p_specification ps)
        \<and> sectionName = js ''analysis''
      \<or> op = js ''insert_section'' \<and> p_section ps = Some sectionName
        \<and> \<not> falsy (p_content ps))"

text \<open>
  The extraction of a range, from the specification's words: the lines of the source
  with the 1-based numbers \<open>start\<close> to \<open>end\<close>, in order; and these lines as the synthesized
  script shows them, each under the comment with its number.
\<close>

definition source_slice :: "jstring list \<Rightarrow> int \<Rightarrow> int \<Rightarrow> jstring list" where
  "source_slice lines startLine endLine = map (\<lambda>n. lines ! (nat n - 1)) [startLine..endLine]"

definition tagged_slice :: "jstring list \<Rightarrow> int \<Rightarrow> int \<Rightarrow> jstring list" where
  "tagged_slice lines startLine endLine =
     map (\<lambda>n. js ''* Line '' @ show_int n @ [10] @ lines ! (nat n - 1)) [startLine..endLine]"

text \<open>
  The recognized setup statements, from the specification's words: optional leading white
  space, then the words of \<open>clear all\<close>, \<open>set more off\<close> or \<open>capture log close\<close> in any
  letter case, separated by white space, then anything.
\<close>

definition ws_run :: "jstring \<Rightarrow> bool" where
  "ws_run s = (\<forall>c \<in> set s. is_ws c)"

definition ci_eq :: "jstring \<Rightarrow> jstring \<Rightarrow> bool" where
  "ci_eq a b = (map canonicalize a = map canonicalize b)"

definition words2 :: "jstring \<Rightarrow> jstring \<Rightarrow> jstring \<Rightarrow> bool" where
  "words2 a b s = (\<exists>x g y r. s = x @ g @ y @ r \<and> ci_eq x a \<and> g \<noteq> [] \<and> ws_run g \<and> ci_eq y b)"

definition words3 :: "jstring \<Rightarrow> jstring \<Rightarrow> jstring \<Rightarrow> jstring \<Rightarrow> bool" where
  "words3 a b c s =
     (\<exists>x g y h z r. s = x @ g @ y @ h @ z @ r \<and> ci_eq x a \<and> g \<noteq> [] \<and> ws_run g \<and> ci_eq y b
                    \<and> h \<noteq> [] \<and> ws_run h \<and> ci_eq z c)"

definition spec_setup_statement :: "jstring \<Rightarrow> bool" where
  "spec_setup_statement line =
     (\<exists>lead rest. line = lead @ rest \<and> ws_run lead
        \<and> (words2 (js ''clear'') (js ''all'') rest
           \<or> words3 (js ''set'') (js ''more'') (js ''off'') rest
           \<or> words3 (js ''capture'') (js ''log'') (js ''close'') rest))"

text \<open>
  The companion log file of a script, from the specification's words: the path of the
  script without its extension \<open>.do\<close>, with \<open>.log\<close>.
\<close>

definition companion_log :: "jstring \<Rightarrow> jstring" where
  "companion_log scriptPath = take (length scriptPath - 3) scriptPath @ js ''.log''"

text \<open>
  The specification's output precedence, from its words: the content of the persisted log
  file, else the captured standard output, else the captured standard error.
\<close>

definition spec_output :: "jstring option \<Rightarrow> jstring \<Rightarrow> jstring \<Rightarrow> jstring" where
  "spec_output logFile out errorOutput =
     or_else (case logFile of None \<Rightarrow> [] | Some c \<Rightarrow> c) (or_else out errorOutput)"

section \<open>A concrete environment\<close>

text \<open>
  POSIX paths without \<open>.\<close> and \<open>..\<close> segments, enough for the examples: \<open>join\<close> puts a
  slash between its arguments, \<open>basename\<close> and \<open>dirname\<close> split at the last slash.
\<close>

definition posix_basename :: "jstring \<Rightarrow> jstring" where
  "posix_basename p = rev (takeWhile (\<lambda>c. c \<noteq> 47) (rev p))"

definition posix_basename_ext :: "jstring \<Rightarrow> jstring \<Rightarrow> jstring" where
  "posix_basename_ext p ext =
     (let b = posix_basename p
      in if length ext < length b \<and> drop (length b - length ext) b = ext
         then take (length b - length ext) b else b)"

definition posix_dirname :: "jstring \<Rightarrow> jstring" where
  "posix_dirname p = rev (drop 1 (dropWhile (\<lambda>c. c \<noteq> 47) (rev p)))"

definition posix_env ::
  "(jstring \<Rightarrow> jstring list \<Rightarrow> jstring \<Rightarrow> (jstring \<rightharpoonup> jstring) \<Rightarrow> proc_outcome) \<Rightarrow> env" where
  "posix_env proc =
     \<lparr>workspaceDir = js ''/w'', stataPath = js ''/usr/local/stata/stata'',
      platform = js ''linux'',
      path_isAbsolute = (\<lambda>p. startsWith p (js ''/'')),
      path_join = (\<lambda>a b. a @ js ''/'' @ b),
      path_basename = posix_basename,
      path_basename_ext = posix_basename_ext,
      path_dirname = posix_dirname,
      spawn = proc\<rparr>"

definition a_clock :: clock where
  "a_clock = \<lparr>toISOString = js ''2024-01-02T03:04:05.678Z'',
              toLocaleString = js ''2024. 1. 2.''\<rparr>"

definition a_world :: "jstring \<Rightarrow> jstring \<Rightarrow> world" where
  "a_world p content =
     \<lparr>files = [p \<mapsto> content], console = [], spawned = [], unlink_denied = {}\<rparr>"

text \<open>
  Six interpreters: one that cannot be launched, and five that exit with code 0: one
  writes a log file at the path the server derives from the script's, one writes \<open>hello\<close>
  to its standard output and no log file, one removes its script and writes a log file, one
  writes the text of its script to the log file, and one writes its log file beside the
  script, under the script's name with the extension \<open>.log\<close>.
\<close>

definition proc_missing :: "jstring \<Rightarrow> jstring list \<Rightarrow> jstring \<Rightarrow> (jstring \<rightharpoonup> jstring) \<Rightarrow> proc_outcome" where
  "proc_missing cmd args cwd fs = SpawnError (js ''spawn ENOENT'')"

definition proc_logging :: "jstring \<Rightarrow> jstring list \<Rightarrow> jstring \<Rightarrow> (jstring \<rightharpoonup> jstring) \<Rightarrow> proc_outcome" where
  "proc_logging cmd args cwd fs =
     (case args of
        [flag, verb, script] \<Rightarrow> Close (Some 0) [] [] (fs(logPathOf script \<mapsto> js ''. done''))
      | _ \<Rightarrow> Close (Some 1) [] [] fs)"

definition proc_silent :: "jstring \<Rightarrow> jstring list \<Rightarrow> jstring \<Rightarrow> (jstring \<rightharpoonup> jstring) \<Rightarrow> proc_outcome" where
  "proc_silent cmd args cwd fs = Close (Some 0) (js ''hello'') [] fs"


definition proc_echo :: "jstring \<Rightarrow> jstring list \<Rightarrow> jstring \<Rightarrow> (jstring \<rightharpoonup> jstring) \<Rightarrow> proc_outcome" where
  "proc_echo cmd args cwd fs =
     (case args of
        [flag, verb, script] \<Rightarrow>
          (case fs script of
             Some text \<Rightarrow> Close (Some 0) [] [] (fs(logPathOf script \<mapsto> text))
           | None \<Rightarrow> Close (Some 1) [] [] fs)
      | _ \<Rightarrow> Close (Some 1) [] [] fs)"

definition proc_beside :: "jstring \<Rightarrow> jstring list \<Rightarrow> jstring \<Rightarrow> (jstring \<rightharpoonup> jstring) \<Rightarrow> proc_outcome" where
  "proc_beside cmd args cwd fs =
     (case args of
        [flag, verb, script] \<Rightarrow> Close (Some 0) [] [] (fs(companion_log script \<mapsto> js ''. done''))
      | _ \<Rightarrow> Close (Some 1) [] [] fs)"

section \<open>Lemmas about the primitives\<close>

lemma advance_takeWhile:
  "advance lines i = i + length (takeWhile (\<lambda>l. \<not> startsWith l [42]) (drop i lines))"
proof (induction lines i rule: advance.induct)
  case (1 lines i)
  show ?case
  proof (cases "i < length lines \<and> \<not> startsWith (lines ! i) [42]")
    case True
    then have d: "drop i lines = lines ! i # drop (Suc i) lines"
      by (simp add: Cons_nth_drop_Suc)
    from True 1 show ?thesis
      by (subst advance.simps) (simp add: d)
  next
    case False
    show ?thesis
    proof (cases "i < length lines")
      case True
      then have d: "drop i lines = lines ! i # drop (Suc i) lines"
        by (simp add: Cons_nth_drop_Suc)
      from False True show ?thesis
        by (subst advance.simps) (simp add: d)
    next
      case False
      then show ?thesis by (subst advance.simps) simp
    qed
  qed
qed

lemma findIndex_None: "(findIndex p xs = None) = (\<forall>x \<in> set xs. \<not> p x)"
  by (induction xs) auto

lemma findIndex_Some:
  "findIndex p xs = Some i \<Longrightarrow> i < length xs \<and> p (xs ! i) \<and> (\<forall>j < i. \<not> p (xs ! j))"
proof (induction xs arbitrary: i)
  case Nil
  then show ?case by simp
next
  case (Cons x xs)
  show ?case
  proof (cases "p x")
    case True
    with Cons.prems show ?thesis by simp
  next
    case False
    with Cons.prems obtain k where k: "findIndex p xs = Some k" "i = Suc k"
      by auto
    from Cons.IH [OF k(1)] False k(2) show ?thesis
      by (auto simp: less_Suc_eq_0_disj)
  qed
qed

subsection \<open>The steps of \<open>executeSelectedLines\<close>\<close>

lemma executeSelectedLines_valid:
  assumes "files w filePath = Some content"
    and "1 \<le> startLine" and "startLine \<le> endLine"
    and "endLine \<le> int (length (js_split 10 content))"
  shows "executeSelectedLines E now w filePath startLine endLine
           = (case executeDoFile E (staged E now w filePath content startLine endLine)
                     (tempFilePath E now filePath startLine endLine) of
                (Inr result, w2) \<Rightarrow>
                  (Inr (result\<lparr>outputText :=
                          enhancedOutput filePath startLine endLine (outputText result)\<rparr>),
                   cleanup w2 (tempFilePath E now filePath startLine endLine))
              | (Inl e, w2) \<Rightarrow>
                  (Inl (SelectedLinesFailed e),
                   cleanup w2 (tempFilePath E now filePath startLine endLine)))"
proof -
  from assms(2-4) have v: "\<not> (startLine < 1 \<or> endLine < 1
      \<or> startLine > int (length (js_split 10 content))
      \<or> endLine > int (length (js_split 10 content)))" "\<not> startLine > endLine"
    by simp_all
  with assms(1) show ?thesis
    by (simp add: executeSelectedLines_def fs_readFile_def staged_def Let_def)
qed


lemma executeDoFile_files:
  "files (snd (executeDoFile E w p))
     = (case run_process E w p of SpawnError m \<Rightarrow> files w | Close c out err fs \<Rightarrow> fs)"
  by (cases "run_process E w p")
     (auto simp: executeDoFile_def fs_readFile_def Let_def split: option.splits)

subsection \<open>The derived log path\<close>




lemma logPathOf_directory_example:
  "logPathOf (js ''/v.do/temp_a.do'') = js ''/v.log/temp_a.do''"
  "companion_log (js ''/v.do/temp_a.do'') = js ''/v.do/temp_a.log''"
  by (simp_all add: logPathOf_def companion_log_def startsWith_def js_def)

subsection \<open>Evaluating the examples\<close>

text \<open>
  The definitions the simplifier unfolds to evaluate a pattern, and the concrete
  environment, on a given input.
\<close>

lemmas rx_eval =
  rx_star_comment_def rx_lit_def rx_end_def rx_ws_plus_def canonicalize_def is_ws_def js_def

lemmas posix_eval =
  posix_env_def a_world_def resolvePath_def startsWith_def posix_basename_def
  posix_basename_ext_def posix_dirname_def

lemma posix_env_sel:
  "spawn (posix_env proc) = proc"
  "stataPath (posix_env proc) = js ''/usr/local/stata/stata''"
  "path_dirname (posix_env proc) = posix_dirname"
  by (simp_all add: posix_env_def)

lemma stata_args_example:
  "stata_args (posix_env proc) p = [js ''/e'', js ''do'', p]"
  by (simp add: stata_args_def posix_env_def js_def)

lemma tempFilePath_posix:
  "tempFilePath (posix_env proc) a_clock (js ''/w/a.do'') startLine endLine
     = js ''/w/temp_a_lines_'' @ show_int startLine @ js ''_'' @ show_int endLine
       @ js ''_2024-01-02T03-04-05-678Z.do''"
  by (simp add: tempFilePath_def a_clock_def replace_colons_dots_def posix_eval js_def)

section \<open>Editing a script without the marker\<close>

lemma section_names_RegExp:
  "sectionName \<in> set section_names \<Longrightarrow> \<exists>marker. sectionMarkers sectionName = RegExp marker"
  by (auto simp: section_names_def sectionMarkers_def)

lemma insertSection_absent:
  assumes reg: "sectionName \<in> set section_names"
    and present: "files w (resolvePath E filePath) = Some S"
    and absent: "\<not> section_present sectionName S"
  shows "insertSection E w filePath sectionName content position
           = (Inl (SectionNotFound sectionName), w)"
proof -
  from reg obtain marker where m: "sectionMarkers sectionName = RegExp marker"
    using section_names_RegExp by blast
  with absent have "\<forall>l \<in> set (js_split 10 S). \<not> marker l"
    by (simp add: section_present_def list_ex_iff)
  then have "findIndex marker (js_split 10 S) = None"
    by (simp add: findIndex_None)
  with m present show ?thesis
    by (simp add: insertSection_def readFile_def fs_readFile_def)
qed

lemma createBackup_present:
  assumes "files w (resolvePath E filePath) = Some S"
  shows "createBackup E now w filePath
           = (Inr (backupPath E now filePath),
              w\<lparr>files := (files w)(backupPath E now filePath \<mapsto> S)\<rparr>)"
  using assms by (simp add: createBackup_def fs_copyFile_def)

lemma edit_operation_absent:
  assumes reg: "sectionName \<in> set section_names"
    and present: "files w (resolvePath E filePath) = Some S"
    and absent: "\<not> section_present sectionName S"
    and tg: "targets op ps sectionName"
  shows "edit_operation E w filePath op ps = (Inl (SectionNotFound sectionName), w)"
proof -
  have ne: "js ''add_variable'' \<noteq> js ''add_analysis''"
    "js ''add_variable'' \<noteq> js ''insert_section''"
    "js ''add_analysis'' \<noteq> js ''insert_section''"
    by (simp_all add: js_def)
  from tg consider
      (var) "op = js ''add_variable''" "\<not> falsy (p_name ps)" "\<not> falsy (p_definition ps)"
            "sectionName = js ''preprocessing''"
    | (ana) "op = js ''add_analysis''" "\<not> falsy (p_type ps)" "\<not> falsy (p_specification ps)"
            "sectionName = js ''analysis''"
    | (ins) "op = js ''insert_section''" "p_section ps = Some sectionName"
            "\<not> falsy (p_content ps)"
    unfolding targets_def by blast
  then show ?thesis
  proof cases
    case var
    with insertSection_absent [OF reg present absent] show ?thesis
      by (simp add: edit_operation_def addVariable_def)
  next
    case ana
    with insertSection_absent [OF reg present absent] ne show ?thesis
      by (simp add: edit_operation_def addAnalysis_def)
  next
    case ins
    from reg have "sectionName \<noteq> []"
      by (auto simp: section_names_def js_def)
    with ins insertSection_absent [OF reg present absent] ne show ?thesis
      by (simp add: edit_operation_def falsy_def)
  qed
qed

text \<open>
  Claim C5.  For a script \<open>S\<close> and a registered section name none of whose lines matches
  the marker, every edit that targets the section (\<open>insertSection\<close>, \<open>addVariable\<close> for
  \<open>preprocessing\<close>, \<open>addAnalysis\<close> for \<open>analysis\<close>, and the tool \<open>edit_do_file\<close> around
  them) fails with the error "section not found", and the script is not written: the
  editor returns the state it was given, and after the tool call the file still has the
  content \<open>S\<close>.
\<close>

theorem absent_marker_edit_fails:
  assumes reg: "sectionName \<in> set section_names"
    and present: "files w (resolvePath E filePath) = Some S"
    and absent: "\<not> section_present sectionName S"
  shows "insertSection E w filePath sectionName content position
           = (Inl (SectionNotFound sectionName), w)
       \<and> is_not_found (SectionNotFound sectionName)
       \<and> (sectionName = js ''preprocessing'' \<longrightarrow>
            addVariable E w filePath varName definition0 label
              = (Inl (SectionNotFound sectionName), w))
       \<and> (sectionName = js ''analysis'' \<longrightarrow>
            addAnalysis E w filePath analysisType specification0
              = (Inl (SectionNotFound sectionName), w))
       \<and> (filePath \<noteq> [] \<and> targets op ps sectionName \<longrightarrow>
            (\<exists>w'. edit_do_file E now w
                     (Some \<lparr>file_path = Some filePath, operation = Some op, params = Some ps\<rparr>)
                   = (error_text (SectionNotFound sectionName), w')
                 \<and> files w' (resolvePath E filePath) = Some S))"
proof (intro conjI impI)
  show "insertSection E w filePath sectionName content position
          = (Inl (SectionNotFound sectionName), w)"
    by (rule insertSection_absent [OF reg present absent])
  show "is_not_found (SectionNotFound sectionName)"
    by simp
  show "addVariable E w filePath varName definition0 label
          = (Inl (SectionNotFound sectionName), w)"
    if "sectionName = js ''preprocessing''"
    using that insertSection_absent [OF reg present absent] by (simp add: addVariable_def)
  show "addAnalysis E w filePath analysisType specification0
          = (Inl (SectionNotFound sectionName), w)"
    if "sectionName = js ''analysis''"
    using that insertSection_absent [OF reg present absent] by (simp add: addAnalysis_def)
  show "\<exists>w'. edit_do_file E now w
                (Some \<lparr>file_path = Some filePath, operation = Some op, params = Some ps\<rparr>)
              = (error_text (SectionNotFound sectionName), w')
            \<and> files w' (resolvePath E filePath) = Some S"
    if h: "filePath \<noteq> [] \<and> targets op ps sectionName"
  proof -
    let ?w1 = "w\<lparr>files := (files w)(backupPath E now filePath \<mapsto> S)\<rparr>"
    have file1: "files ?w1 (resolvePath E filePath) = Some S"
      using present by simp
    from h have opne: "op \<noteq> []"
      by (auto simp: targets_def js_def)
    have "edit_operation E ?w1 filePath op ps = (Inl (SectionNotFound sectionName), ?w1)"
      using h by (intro edit_operation_absent [OF reg file1 absent]) simp
    with h opne createBackup_present [OF present, of now] file1 show ?thesis
      by (simp add: edit_do_file_def falsy_def)
  qed
qed

theorem absent_marker_edit_fails_witness:
  "js ''analysis'' \<in> set section_names \<and> js ''preprocessing'' \<in> set section_names
   \<and> files (a_world (js ''/w/a.do'') (js ''clear all'' @ [10] @ js ''regress y x''))
        (resolvePath (posix_env proc_missing) (js ''/w/a.do''))
       = Some (js ''clear all'' @ [10] @ js ''regress y x'')
   \<and> \<not> section_present (js ''analysis'') (js ''clear all'' @ [10] @ js ''regress y x'')
   \<and> \<not> section_present (js ''preprocessing'') (js ''clear all'' @ [10] @ js ''regress y x'')
   \<and> insertSection (posix_env proc_missing)
         (a_world (js ''/w/a.do'') (js ''clear all'' @ [10] @ js ''regress y x''))
         (js ''/w/a.do'') (js ''analysis'') (js ''summarize'') None
       = (Inl (SectionNotFound (js ''analysis'')),
          a_world (js ''/w/a.do'') (js ''clear all'' @ [10] @ js ''regress y x''))
   \<and> addAnalysis (posix_env proc_missing)
         (a_world (js ''/w/a.do'') (js ''clear all'' @ [10] @ js ''regress y x''))
         (js ''/w/a.do'') (js ''OLS'') (js ''regress y x z'')
       = (Inl (SectionNotFound (js ''analysis'')),
          a_world (js ''/w/a.do'') (js ''clear all'' @ [10] @ js ''regress y x''))
   \<and> addVariable (posix_env proc_missing)
         (a_world (js ''/w/a.do'') (js ''clear all'' @ [10] @ js ''regress y x''))
         (js ''/w/a.do'') (js ''x2'') (js ''generate x2 = x * x'') None
       = (Inl (SectionNotFound (js ''preprocessing'')),
          a_world (js ''/w/a.do'') (js ''clear all'' @ [10] @ js ''regress y x''))
   \<and> js ''/w/a.do'' \<noteq> []
   \<and> targets (js ''insert_section'')
        \<lparr>p_name = None, p_definition = None, p_label = None, p_type = None,
         p_specification = None, p_section = Some (js ''analysis''),
         p_content = Some (js ''summarize''), p_position = Some (js ''before'')\<rparr>
        (js ''analysis'')
   \<and> fst (edit_do_file (posix_env proc_missing) a_clock
             (a_world (js ''/w/a.do'') (js ''clear all'' @ [10] @ js ''regress y x''))
             (Some \<lparr>file_path = Some (js ''/w/a.do''), operation = Some (js ''insert_section''),
                    params = Some \<lparr>p_name = None, p_definition = None, p_label = None,
                                    p_type = None, p_specification = None,
                                    p_section = Some (js ''analysis''),
                                    p_content = Some (js ''summarize''),
                                    p_position = Some (js ''before'')\<rparr>\<rparr>))
       = error_text (SectionNotFound (js ''analysis''))
   \<and> files (snd (edit_do_file (posix_env proc_missing) a_clock
                   (a_world (js ''/w/a.do'') (js ''clear all'' @ [10] @ js ''regress y x''))
                   (Some \<lparr>file_path = Some (js ''/w/a.do''),
                          operation = Some (js ''insert_section''),
                          params = Some \<lparr>p_name = None, p_definition = None, p_label = None,
                                          p_type = None, p_specification = None,
                                          p_section = Some (js ''analysis''),
                                          p_content = Some (js ''summarize''),
                                          p_position = Some (js ''before'')\<rparr>\<rparr>)))
       (js ''/w/a.do'')
       = Some (js ''clear all'' @ [10] @ js ''regress y x'')"
proof -
  let ?S = "js ''clear all'' @ [10] @ js ''regress y x''"
  let ?w = "a_world (js ''/w/a.do'') ?S"
  let ?E = "posix_env proc_missing"
  let ?ps = "\<lparr>p_name = None, p_definition = None, p_label = None, p_type = None,
              p_specification = None, p_section = Some (js ''analysis''),
              p_content = Some (js ''summarize''), p_position = Some (js ''before'')\<rparr>"
  have reg: "js ''analysis'' \<in> set section_names"
    "js ''preprocessing'' \<in> set section_names"
    by (simp_all add: section_names_def)
  have rp: "resolvePath ?E (js ''/w/a.do'') = js ''/w/a.do''"
    by (simp add: posix_eval js_def)
  have present: "files ?w (resolvePath ?E (js ''/w/a.do'')) = Some ?S"
    by (simp add: rp a_world_def)
  have absent: "\<not> section_present (js ''analysis'') ?S"
    by (simp add: section_present_def sectionMarkers_def marker_analysis_def rx_eval
        lit_analysis_def)
  have absent': "\<not> section_present (js ''preprocessing'') ?S"
    by (simp add: section_present_def sectionMarkers_def marker_preprocessing_def rx_eval
        lit_variable_def lit_preprocess_def)
  have tg: "js ''/w/a.do'' \<noteq> [] \<and> targets (js ''insert_section'') ?ps (js ''analysis'')"
    by (simp add: targets_def falsy_def js_def)
  note a = absent_marker_edit_fails [OF reg(1) present absent,
      of "js ''summarize''" None "js ''x2''" "js ''generate x2 = x * x''" None
         "js ''OLS''" "js ''regress y x z''" "js ''insert_section''" ?ps a_clock]
  note b = absent_marker_edit_fails [OF reg(2) present absent',
      of "js ''summarize''" None "js ''x2''" "js ''generate x2 = x * x''" None
         "js ''OLS''" "js ''regress y x z''" "js ''insert_section''" ?ps a_clock]
  from a have a1: "insertSection ?E ?w (js ''/w/a.do'') (js ''analysis'') (js ''summarize'') None
      = (Inl (SectionNotFound (js ''analysis'')), ?w)"
    and a2: "addAnalysis ?E ?w (js ''/w/a.do'') (js ''OLS'') (js ''regress y x z'')
      = (Inl (SectionNotFound (js ''analysis'')), ?w)"
    by simp_all
  from a tg obtain w' where
    "edit_do_file ?E a_clock ?w
       (Some \<lparr>file_path = Some (js ''/w/a.do''), operation = Some (js ''insert_section''),
              params = Some ?ps\<rparr>)
     = (error_text (SectionNotFound (js ''analysis'')), w')"
    and "files w' (resolvePath ?E (js ''/w/a.do'')) = Some ?S"
    by blast
  then have a3: "fst (edit_do_file ?E a_clock ?w
       (Some \<lparr>file_path = Some (js ''/w/a.do''), operation = Some (js ''insert_section''),
              params = Some ?ps\<rparr>)) = error_text (SectionNotFound (js ''analysis''))"
    and a4: "files (snd (edit_do_file ?E a_clock ?w
       (Some \<lparr>file_path = Some (js ''/w/a.do''), operation = Some (js ''insert_section''),
              params = Some ?ps\<rparr>))) (js ''/w/a.do'') = Some ?S"
    by (simp_all add: rp)
  from b have b1: "addVariable ?E ?w (js ''/w/a.do'') (js ''x2'') (js ''generate x2 = x * x'') None
      = (Inl (SectionNotFound (js ''preprocessing'')), ?w)"
    by simp
  from reg present absent absent' a1 a2 b1 tg a3 a4 show ?thesis
    by blast
qed

section \<open>Insertion after a marker\<close>

lemma advance_bounds:
  assumes "i \<le> length lines"
  shows "i \<le> advance lines i" and "advance lines i \<le> length lines"
proof -
  let ?t = "takeWhile (\<lambda>l. \<not> startsWith l [42]) (drop i lines)"
  show "i \<le> advance lines i"
    by (simp add: advance_takeWhile)
  have "length ?t \<le> length (drop i lines)"
    by (rule length_takeWhile_le)
  with assms show "advance lines i \<le> length lines"
    by (simp add: advance_takeWhile)
qed

lemma advance_skipped:
  assumes "i \<le> k" and "k < advance lines i"
  shows "\<not> startsWith (lines ! k) [42]"
proof -
  let ?P = "\<lambda>l. \<not> startsWith l [42]"
  let ?t = "takeWhile ?P (drop i lines)"
  from assms have k: "k - i < length ?t"
    by (simp add: advance_takeWhile)
  have le: "length ?t \<le> length (drop i lines)"
    by (rule length_takeWhile_le)
  from k have "?t ! (k - i) = drop i lines ! (k - i)"
    by (rule takeWhile_nth)
  moreover from k le assms have "drop i lines ! (k - i) = lines ! k"
    by simp
  moreover have "?P (?t ! (k - i))"
  proof -
    from k have "?t ! (k - i) \<in> set ?t"
      by (rule nth_mem)
    then show ?thesis
      by (rule set_takeWhileD [THEN conjunct2])
  qed
  ultimately show ?thesis by simp
qed

lemma advance_stops:
  "advance lines i < length lines \<Longrightarrow> startsWith (lines ! advance lines i) [42]"
proof (induction lines i rule: advance.induct)
  case (1 lines i)
  show ?case
  proof (cases "i < length lines \<and> \<not> startsWith (lines ! i) [42]")
    case True
    then have eq: "advance lines i = advance lines (i + 1)"
      by (subst advance.simps) simp
    with 1 True show ?thesis by simp
  next
    case False
    then have eq: "advance lines i = i"
      by (subst advance.simps) auto
    with 1 False show ?thesis by simp
  qed
qed


lemma section_present_findIndex:
  assumes "section_present sectionName S"
  shows "\<exists>marker m. sectionMarkers sectionName = RegExp marker
            \<and> findIndex marker (js_split 10 S) = Some m"
proof (cases "sectionMarkers sectionName")
  case (RegExp marker)
  with assms have "\<exists>l \<in> set (js_split 10 S). marker l"
    by (simp add: section_present_def list_ex_iff)
  then have "findIndex marker (js_split 10 S) \<noteq> None"
    by (simp add: findIndex_None)
  with RegExp show ?thesis by auto
next
  case Inherited
  with assms show ?thesis by (simp add: section_present_def)
next
  case Undefined
  with assms show ?thesis by (simp add: section_present_def)
qed

text \<open>
  Claim C1, as the code has it.  For a script with the marker line of a section name
  and the position \<open>after\<close> (given or by default), \<open>insertSection\<close> writes the script with
  the block (an empty line, the content, an empty line) inserted at the index \<open>j\<close> where
  \<open>m\<close> is the first line that matches the marker, \<open>m < j\<close>, no line strictly between \<open>m\<close>
  and \<open>j\<close> begins with a star, and the line at \<open>j\<close>, if there is one, begins with a star:
  the block goes after the run of lines that are not comment lines, in front of the next
  comment line or at the end of the script.
\<close>

theorem insert_after_placement:
  assumes present: "files w (resolvePath E filePath) = Some S"
    and marked: "section_present sectionName S"
    and pos: "position = None \<or> position = Some (js ''after'')"
  shows "\<exists>marker m j.
           sectionMarkers sectionName = RegExp marker
         \<and> findIndex marker (js_split 10 S) = Some m
         \<and> marker (js_split 10 S ! m) \<and> (\<forall>i < m. \<not> marker (js_split 10 S ! i))
         \<and> m < j \<and> j \<le> length (js_split 10 S)
         \<and> (\<forall>i. m < i \<and> i < j \<longrightarrow> \<not> startsWith (js_split 10 S ! i) [42])
         \<and> (j < length (js_split 10 S) \<longrightarrow> startsWith (js_split 10 S ! j) [42])
         \<and> insertSection E w filePath sectionName content position
             = (Inr (),
                w\<lparr>files := (files w)(resolvePath E filePath \<mapsto>
                     js_join [10] (take j (js_split 10 S) @ [[], content, []]
                                   @ drop j (js_split 10 S)))\<rparr>)"
proof -
  let ?lines = "js_split 10 S"
  from section_present_findIndex [OF marked] obtain marker m
    where mk: "sectionMarkers sectionName = RegExp marker"
      and fi: "findIndex marker ?lines = Some m"
    by blast
  let ?j = "advance ?lines (m + 1)"
  from findIndex_Some [OF fi] have m: "m < length ?lines"
    and fm: "marker (?lines ! m)" "\<forall>i < m. \<not> marker (?lines ! i)"
    by simp_all
  then have m1: "m + 1 \<le> length ?lines"
    by simp
  have j1: "m < ?j"
    using advance_bounds(1) [OF m1] by simp
  have j2: "?j \<le> length ?lines"
    by (rule advance_bounds(2) [OF m1])
  have sk: "\<forall>i. m < i \<and> i < ?j \<longrightarrow> \<not> startsWith (?lines ! i) [42]"
    using advance_skipped [of "m + 1" _ ?lines] by simp
  have st: "?j < length ?lines \<longrightarrow> startsWith (?lines ! ?j) [42]"
    using advance_stops by blast
  from pos have ix: "insertIndex_of ?lines m position = ?j"
    by (auto simp: insertIndex_of_def)
  have run: "insertSection E w filePath sectionName content position
      = (Inr (),
         w\<lparr>files := (files w)(resolvePath E filePath \<mapsto>
              js_join [10] (take ?j ?lines @ [[], content, []] @ drop ?j ?lines))\<rparr>)"
    using present mk fi ix
    by (simp add: insertSection_def readFile_def fs_readFile_def writeFile_def
        fs_writeFile_def splice_insert_def Let_def)
  from mk fi fm j1 j2 sk st run show ?thesis
    by blast
qed


theorem insert_after_placement_witness:
  "files (a_world (js ''/w/a.do'')
            ([42, 32] @ lit_analysis @ [10] @ js ''regress y x'' @ [10] @ [42, 32] @ lit_output))
     (resolvePath (posix_env proc_missing) (js ''/w/a.do''))
     = Some ([42, 32] @ lit_analysis @ [10] @ js ''regress y x'' @ [10] @ [42, 32] @ lit_output)
   \<and> section_present (js ''analysis'')
        ([42, 32] @ lit_analysis @ [10] @ js ''regress y x'' @ [10] @ [42, 32] @ lit_output)
   \<and> files (snd (insertSection (posix_env proc_missing)
                   (a_world (js ''/w/a.do'')
                      ([42, 32] @ lit_analysis @ [10] @ js ''regress y x'' @ [10]
                       @ [42, 32] @ lit_output))
                   (js ''/w/a.do'') (js ''analysis'') (js ''summarize'') None))
       (js ''/w/a.do'')
     = Some ([42, 32] @ lit_analysis @ [10] @ js ''regress y x'' @ [10]
             @ [10] @ js ''summarize'' @ [10] @ [10] @ [42, 32] @ lit_output)
   \<and> (\<exists>marker m j.
         sectionMarkers (js ''analysis'') = RegExp marker
       \<and> m < j
       \<and> insertSection (posix_env proc_missing)
            (a_world (js ''/w/a.do'')
               ([42, 32] @ lit_analysis @ [10] @ js ''regress y x'' @ [10]
                @ [42, 32] @ lit_output))
            (js ''/w/a.do'') (js ''analysis'') (js ''summarize'') None
           = (Inr (),
              (a_world (js ''/w/a.do'')
                 ([42, 32] @ lit_analysis @ [10] @ js ''regress y x'' @ [10]
                  @ [42, 32] @ lit_output))
              \<lparr>files := [js ''/w/a.do'' \<mapsto>
                   js_join [10]
                     (take j (js_split 10 ([42, 32] @ lit_analysis @ [10] @ js ''regress y x''
                                           @ [10] @ [42, 32] @ lit_output))
                      @ [[], js ''summarize'', []]
                      @ drop j (js_split 10 ([42, 32] @ lit_analysis @ [10]
                                             @ js ''regress y x'' @ [10]
                                             @ [42, 32] @ lit_output)))]\<rparr>))"
proof -
  let ?S = "[42, 32] @ lit_analysis @ [10] @ js ''regress y x'' @ [10] @ [42, 32] @ lit_output"
  let ?w = "a_world (js ''/w/a.do'') ?S"
  let ?E = "posix_env proc_missing"
  have present: "files ?w (resolvePath ?E (js ''/w/a.do'')) = Some ?S"
    by (simp add: posix_eval js_def)
  have marked: "section_present (js ''analysis'') ?S"
    by (simp add: section_present_def sectionMarkers_def marker_analysis_def rx_eval
        lit_analysis_def lit_output_def)
  have pos: "(None :: jstring option) = None \<or> None = Some (js ''after'')"
    by simp
  have rp: "resolvePath ?E (js ''/w/a.do'') = js ''/w/a.do''"
    by (simp add: posix_eval js_def)
  have fw: "files ?w = [js ''/w/a.do'' \<mapsto> ?S]"
    by (simp add: a_world_def)
  have ev: "files (snd (insertSection ?E ?w (js ''/w/a.do'') (js ''analysis'')
                          (js ''summarize'') None)) (js ''/w/a.do'')
      = Some ([42, 32] @ lit_analysis @ [10] @ js ''regress y x'' @ [10]
              @ [10] @ js ''summarize'' @ [10] @ [10] @ [42, 32] @ lit_output)"
    by (simp add: insertSection_def readFile_def fs_readFile_def writeFile_def
        fs_writeFile_def splice_insert_def insertIndex_of_def sectionMarkers_def
        marker_analysis_def rx_eval posix_eval lit_analysis_def lit_output_def advance.simps)
  from insert_after_placement [OF present marked pos, of "js ''summarize''"]
  have "\<exists>marker m j.
         sectionMarkers (js ''analysis'') = RegExp marker
       \<and> m < j
       \<and> insertSection ?E ?w (js ''/w/a.do'') (js ''analysis'') (js ''summarize'') None
           = (Inr (),
              ?w\<lparr>files := [js ''/w/a.do'' \<mapsto>
                   js_join [10] (take j (js_split 10 ?S) @ [[], js ''summarize'', []]
                                 @ drop j (js_split 10 ?S))]\<rparr>)"
    unfolding rp fw by (metis fun_upd_upd)
  with present marked ev show ?thesis
    by blast
qed


text \<open>
  The claim as the specification states it fails on a script whose marker is followed by
  a comment line: the loop stops at once, and the block is written between the marker
  and that comment line, not after the run of comment lines.
\<close>

theorem insert_after_comment_run_counterexample:
  "js_split 10 ([42, 32] @ lit_analysis @ [10] @ js ''* model 1'' @ [10] @ js ''regress y x'')
     = [[42, 32] @ lit_analysis, js ''* model 1'', js ''regress y x'']
   \<and> findIndex marker_analysis
         [[42, 32] @ lit_analysis, js ''* model 1'', js ''regress y x''] = Some 0
   \<and> startsWith ([42, 32] @ lit_analysis) [42] \<and> startsWith (js ''* model 1'') [42]
   \<and> \<not> startsWith (js ''regress y x'') [42]
   \<and> spec_after_index [[42, 32] @ lit_analysis, js ''* model 1'', js ''regress y x''] 0 = 2
   \<and> insertIndex_of [[42, 32] @ lit_analysis, js ''* model 1'', js ''regress y x''] 0
         (Some (js ''after'')) = 1
   \<and> map_option (js_split 10)
         (files (snd (insertSection (posix_env proc_missing)
                        (a_world (js ''/w/a.do'')
                           ([42, 32] @ lit_analysis @ [10] @ js ''* model 1'' @ [10]
                            @ js ''regress y x''))
                        (js ''/w/a.do'') (js ''analysis'') (js ''summarize'')
                        (Some (js ''after''))))
            (js ''/w/a.do''))
       = Some [[42, 32] @ lit_analysis, [], js ''summarize'', [], js ''* model 1'',
               js ''regress y x'']"
  by (simp add: insertSection_def readFile_def fs_readFile_def writeFile_def
      fs_writeFile_def splice_insert_def insertIndex_of_def spec_after_index_def
      sectionMarkers_def marker_analysis_def rx_eval posix_eval lit_analysis_def
      advance.simps)

section \<open>Extracting a line range\<close>

lemma js_slice_valid:
  assumes "1 \<le> startLine" and "startLine \<le> endLine" and "endLine \<le> int (length lines)"
  shows "js_slice lines (startLine - 1) endLine
           = take (nat (endLine - startLine + 1)) (drop (nat (startLine - 1)) lines)"
proof -
  have e: "endLine - (startLine - 1) = endLine - startLine + 1"
    by simp
  from assms have "js_slice lines (startLine - 1) endLine
      = take (nat (endLine - (startLine - 1))) (drop (nat (startLine - 1)) lines)"
    by (simp add: js_slice_def Let_def)
  then show ?thesis
    by (simp only: e)
qed

lemma processedLines_length: "length (processedLines startLine ls) = length ls"
  by (simp add: processedLines_def)

lemma processedLines_nth:
  "i < length ls \<Longrightarrow>
     processedLines startLine ls ! i
       = js ''* Line '' @ show_int (startLine + int i) @ [10] @ ls ! i"
  by (simp add: processedLines_def nth_enumerate_eq)

lemma digits_nonempty: "digits n \<noteq> []"
  by (subst digits.simps) simp

lemma digits_inj: "digits m = digits n \<Longrightarrow> m = n"
proof (induction m arbitrary: n rule: digits.induct)
  case (1 m)
  show ?case
  proof (cases "m < 10")
    case True
    then have dm: "digits m = [48 + m]"
      by (subst digits.simps) simp
    show ?thesis
    proof (cases "n < 10")
      case True
      then have "digits n = [48 + n]"
        by (subst digits.simps) simp
      with dm "1.prems" show ?thesis by simp
    next
      case False
      then have "digits n = digits (n div 10) @ [48 + n mod 10]"
        by (subst digits.simps) simp
      with dm "1.prems" digits_nonempty [of "n div 10"] show ?thesis
        by simp
    qed
  next
    case False
    then have dm: "digits m = digits (m div 10) @ [48 + m mod 10]"
      by (subst digits.simps) simp
    show ?thesis
    proof (cases "n < 10")
      case True
      then have "digits n = [48 + n]"
        by (subst digits.simps) simp
      with dm "1.prems" digits_nonempty [of "m div 10"] show ?thesis
        by simp
    next
      case nf: False
      then have "digits n = digits (n div 10) @ [48 + n mod 10]"
        by (subst digits.simps) simp
      with dm "1.prems" have d: "digits (m div 10) = digits (n div 10)"
        and r: "m mod 10 = n mod 10"
        by simp_all
      from "1.IH" [OF False d] have "m div 10 = n div 10" .
      with r show ?thesis
        by (metis div_mult_mod_eq)
    qed
  qed
qed

lemma digits_no_minus: "45 \<notin> set (digits n)"
proof (induction n rule: digits.induct)
  case (1 n)
  show ?case
  proof (cases "n < 10")
    case True
    then show ?thesis by (subst digits.simps) simp
  next
    case False
    then have "digits n = digits (n div 10) @ [48 + n mod 10]"
      by (subst digits.simps) simp
    moreover have "48 + n mod 10 \<noteq> 45"
      by simp
    ultimately show ?thesis
      using 1 False by simp
  qed
qed

lemma show_int_inj: "show_int a = show_int b \<Longrightarrow> a = b"
proof -
  assume eq: "show_int a = show_int b"
  have hd: "\<And>n. hd (digits n) \<noteq> 45"
    using digits_no_minus digits_nonempty by (metis hd_in_set)
  show "a = b"
  proof (cases "a < 0"; cases "b < 0")
    assume "a < 0" "b < 0"
    with eq have "digits (nat (- a)) = digits (nat (- b))"
      by (simp add: show_int_def)
    then have "nat (- a) = nat (- b)" by (rule digits_inj)
    with \<open>a < 0\<close> \<open>b < 0\<close> show ?thesis by simp
  next
    assume "a < 0" "\<not> b < 0"
    with eq have "45 # digits (nat (- a)) = digits (nat b)"
      by (simp add: show_int_def)
    then have "hd (digits (nat b)) = 45"
      by (metis list.sel(1))
    with hd show ?thesis by simp
  next
    assume "\<not> a < 0" "b < 0"
    with eq have "digits (nat a) = 45 # digits (nat (- b))"
      by (simp add: show_int_def)
    then have "hd (digits (nat a)) = 45"
      by simp
    with hd show ?thesis by simp
  next
    assume "\<not> a < 0" "\<not> b < 0"
    with eq have "digits (nat a) = digits (nat b)"
      by (simp add: show_int_def)
    then have "nat a = nat b" by (rule digits_inj)
    with \<open>\<not> a < 0\<close> \<open>\<not> b < 0\<close> show ?thesis by simp
  qed
qed


lemma js_slice_source:
  assumes "1 \<le> startLine" and "startLine \<le> endLine" and "endLine \<le> int (length lines)"
  shows "js_slice lines (startLine - 1) endLine = source_slice lines startLine endLine"
proof (rule nth_equalityI)
  let ?n = "nat (endLine - startLine + 1)"
  have sl: "js_slice lines (startLine - 1) endLine
      = take ?n (drop (nat (startLine - 1)) lines)"
    by (rule js_slice_valid [OF assms])
  from assms have b: "nat (startLine - 1) + ?n \<le> length lines"
    by simp
  then have len: "length (js_slice lines (startLine - 1) endLine) = ?n"
    by (simp add: sl)
  then show "length (js_slice lines (startLine - 1) endLine)
      = length (source_slice lines startLine endLine)"
    by (simp add: source_slice_def)
  fix i
  assume "i < length (js_slice lines (startLine - 1) endLine)"
  with len have i: "i < ?n"
    by simp
  from assms have k: "nat (startLine - 1) \<le> length lines"
    by simp
  from i k have "js_slice lines (startLine - 1) endLine ! i = lines ! (nat (startLine - 1) + i)"
    by (simp add: sl)
  moreover from assms have "nat (startLine - 1) + i = nat (startLine + int i) - 1"
    by simp
  moreover from i have "startLine + int i \<le> endLine"
    by simp
  then have "source_slice lines startLine endLine ! i = lines ! (nat (startLine + int i) - 1)"
    using i by (simp add: source_slice_def)
  ultimately show "js_slice lines (startLine - 1) endLine ! i
      = source_slice lines startLine endLine ! i"
    by simp
qed

lemma processedLines_source:
  "processedLines startLine (source_slice lines startLine endLine)
     = tagged_slice lines startLine endLine"
proof (rule nth_equalityI)
  show "length (processedLines startLine (source_slice lines startLine endLine))
      = length (tagged_slice lines startLine endLine)"
    by (simp add: processedLines_length source_slice_def tagged_slice_def)
  fix i
  assume "i < length (processedLines startLine (source_slice lines startLine endLine))"
  then have i: "i < nat (endLine - startLine + 1)"
    by (simp add: processedLines_length source_slice_def)
  then have le: "startLine + int i \<le> endLine"
    by simp
  from i have "processedLines startLine (source_slice lines startLine endLine) ! i
      = js ''* Line '' @ show_int (startLine + int i) @ [10]
        @ source_slice lines startLine endLine ! i"
    by (simp add: processedLines_nth source_slice_def)
  also from i le have "source_slice lines startLine endLine ! i
      = lines ! (nat (startLine + int i) - 1)"
    by (simp add: source_slice_def)
  finally show "processedLines startLine (source_slice lines startLine endLine) ! i
      = tagged_slice lines startLine endLine ! i"
    using i le by (simp add: tagged_slice_def)
qed

text \<open>
  Claim C3.  For a script of \<open>N\<close> lines and a range \<open>1 \<le> start \<le> end \<le> N\<close>,
  \<open>executeSelectedLines\<close> extracts exactly the \<open>end - start + 1\<close> lines of the source with the
  numbers \<open>start\<close> to \<open>end\<close>, verbatim and in order: the script it writes and runs is the
  header, the setup block chosen for these lines, these lines joined by newlines, each
  under the comment \<open>* Line n\<close> with \<open>n\<close> its 1-based number in the source, and the
  trailer; \<open>prepareExecutableCode\<close> on these lines gives that text.  (By \<open>show_int_inj\<close>
  different numbers give different comments.)
\<close>

theorem extract_range_exact:
  assumes "files w filePath = Some content"
    and "1 \<le> startLine" and "startLine \<le> endLine"
    and "endLine \<le> int (length (js_split 10 content))"
  shows "length (source_slice (js_split 10 content) startLine endLine)
           = nat (endLine - startLine + 1)
       \<and> source_slice (js_split 10 content) startLine endLine
           = take (nat (endLine - startLine + 1))
               (drop (nat (startLine - 1)) (js_split 10 content))
       \<and> length (tagged_slice (js_split 10 content) startLine endLine)
           = nat (endLine - startLine + 1)
       \<and> prepareExecutableCode (source_slice (js_split 10 content) startLine endLine)
             filePath startLine endLine now
           = header filePath startLine endLine now
             @ setupCode (source_slice (js_split 10 content) startLine endLine)
             @ js_join [10] (tagged_slice (js_split 10 content) startLine endLine) @ trailer
       \<and> executeSelectedLines E now w filePath startLine endLine
           = (case executeDoFile E
                     (w\<lparr>files := (files w)(tempFilePath E now filePath startLine endLine \<mapsto>
                          header filePath startLine endLine now
                          @ setupCode (source_slice (js_split 10 content) startLine endLine)
                          @ js_join [10] (tagged_slice (js_split 10 content) startLine endLine)
                          @ trailer)\<rparr>)
                     (tempFilePath E now filePath startLine endLine) of
                (Inr result, w2) \<Rightarrow>
                  (Inr (result\<lparr>outputText :=
                          enhancedOutput filePath startLine endLine (outputText result)\<rparr>),
                   cleanup w2 (tempFilePath E now filePath startLine endLine))
              | (Inl e, w2) \<Rightarrow>
                  (Inl (SelectedLinesFailed e),
                   cleanup w2 (tempFilePath E now filePath startLine endLine)))"
proof -
  let ?lines = "js_split 10 content"
  let ?sel = "source_slice ?lines startLine endLine"
  let ?text = "header filePath startLine endLine now @ setupCode ?sel
               @ js_join [10] (tagged_slice ?lines startLine endLine) @ trailer"
  have sl: "js_slice ?lines (startLine - 1) endLine = ?sel"
    by (rule js_slice_source [OF assms(2-4)])
  have l1: "length ?sel = nat (endLine - startLine + 1)"
    by (simp add: source_slice_def)
  have l2: "?sel = take (nat (endLine - startLine + 1)) (drop (nat (startLine - 1)) ?lines)"
    using js_slice_valid [OF assms(2-4)] sl by simp
  have l3: "length (tagged_slice ?lines startLine endLine) = nat (endLine - startLine + 1)"
    by (simp add: tagged_slice_def)
  have p: "prepareExecutableCode ?sel filePath startLine endLine now = ?text"
    by (simp add: prepareExecutableCode_def processedLines_source)
  have st: "staged E now w filePath content startLine endLine
      = w\<lparr>files := (files w)(tempFilePath E now filePath startLine endLine \<mapsto> ?text)\<rparr>"
    by (simp add: staged_def fs_writeFile_def sl p)
  have c: "executeSelectedLines E now w filePath startLine endLine
      = (case executeDoFile E
               (w\<lparr>files := (files w)(tempFilePath E now filePath startLine endLine \<mapsto> ?text)\<rparr>)
               (tempFilePath E now filePath startLine endLine) of
           (Inr result, w2) \<Rightarrow>
             (Inr (result\<lparr>outputText :=
                     enhancedOutput filePath startLine endLine (outputText result)\<rparr>),
              cleanup w2 (tempFilePath E now filePath startLine endLine))
         | (Inl e, w2) \<Rightarrow>
             (Inl (SelectedLinesFailed e),
              cleanup w2 (tempFilePath E now filePath startLine endLine)))"
    using executeSelectedLines_valid [OF assms, of E now] by (simp only: st)
  from l1 l2 l3 p c show ?thesis
    by (intro conjI)
qed


lemma executeDoFile_echo:
  assumes "files w p = Some text" and "text \<noteq> []"
  shows "fst (executeDoFile (posix_env proc_echo) w p)
           = Inr \<lparr>success = True, outputText = text, logPath = logPathOf p\<rparr>"
  using assms
  by (simp add: executeDoFile_def run_process_def posix_env_sel stata_args_example
      proc_echo_def fs_readFile_def or_else_def Let_def)

theorem extract_range_exact_witness:
  "files (a_world (js ''/w/a.do'')
            (js ''clear all'' @ [10] @ js ''use d'' @ [10] @ js ''regress y x'' @ [10]
             @ js ''exit''))
     (js ''/w/a.do'')
     = Some (js ''clear all'' @ [10] @ js ''use d'' @ [10] @ js ''regress y x'' @ [10]
             @ js ''exit'')
   \<and> (1::int) \<le> 2 \<and> (2::int) \<le> 3
   \<and> (3::int) \<le> int (length (js_split 10
                               (js ''clear all'' @ [10] @ js ''use d'' @ [10]
                                @ js ''regress y x'' @ [10] @ js ''exit'')))
   \<and> source_slice (js_split 10 (js ''clear all'' @ [10] @ js ''use d'' @ [10]
                                 @ js ''regress y x'' @ [10] @ js ''exit'')) 2 3
       = [js ''use d'', js ''regress y x'']
   \<and> fst (executeSelectedLines (posix_env proc_echo) a_clock
            (a_world (js ''/w/a.do'')
               (js ''clear all'' @ [10] @ js ''use d'' @ [10] @ js ''regress y x'' @ [10]
                @ js ''exit''))
            (js ''/w/a.do'') 2 3)
       = Inr \<lparr>success = True,
              outputText =
                enhancedOutput (js ''/w/a.do'') 2 3
                  (header (js ''/w/a.do'') 2 3 a_clock
                   @ [42, 32, 44592, 48376, 32, 49444, 51221] @ [10] @ js ''set more off''
                   @ [10] @ js ''capture log close'' @ [10, 10]
                   @ js ''* Line 2'' @ [10] @ js ''use d'' @ [10]
                   @ js ''* Line 3'' @ [10] @ js ''regress y x''
                   @ trailer),
              logPath = js ''/w/temp_a_lines_2_3_2024-01-02T03-04-05-678Z.log''\<rparr>"
proof -
  let ?S = "js ''clear all'' @ [10] @ js ''use d'' @ [10] @ js ''regress y x'' @ [10]
            @ js ''exit''"
  let ?w = "a_world (js ''/w/a.do'') ?S"
  let ?E = "posix_env proc_echo"
  let ?tmp = "js ''/w/temp_a_lines_2_3_2024-01-02T03-04-05-678Z.do''"
  let ?T = "header (js ''/w/a.do'') 2 3 a_clock
            @ [42, 32, 44592, 48376, 32, 49444, 51221] @ [10] @ js ''set more off''
            @ [10] @ js ''capture log close'' @ [10, 10]
            @ js ''* Line 2'' @ [10] @ js ''use d'' @ [10]
            @ js ''* Line 3'' @ [10] @ js ''regress y x''
            @ trailer"
  have sp: "js_split 10 ?S = [js ''clear all'', js ''use d'', js ''regress y x'', js ''exit'']"
    by (simp add: js_def)
  have h4: "(3::int) \<le> int (length (js_split 10 ?S))"
    by (simp only: sp) simp
  have h123: "files ?w (js ''/w/a.do'') = Some ?S" "(1::int) \<le> 2" "(2::int) \<le> 3"
    by (simp_all add: a_world_def)
  note h = h123 h4
  have d: "show_int 2 = js ''2''" "show_int 3 = js ''3''"
    by (simp_all add: show_int_def digits.simps js_def)
  have up: "[2..3] = [2, 3::int]"
    by (simp add: upto_rec1)
  have ss: "source_slice (js_split 10 ?S) 2 3 = [js ''use d'', js ''regress y x'']"
    by (simp only: sp) (simp add: source_slice_def up)
  have ts: "js_join [10] (tagged_slice (js_split 10 ?S) 2 3)
      = js ''* Line 2'' @ [10] @ js ''use d'' @ [10] @ js ''* Line 3'' @ [10]
        @ js ''regress y x''"
    by (simp only: sp) (simp add: tagged_slice_def up d, simp add: js_def)
  have sc: "setupCode [js ''use d'', js ''regress y x'']
      = [42, 32, 44592, 48376, 32, 49444, 51221] @ [10] @ js ''set more off''
        @ [10] @ js ''capture log close'' @ [10, 10]"
    by (simp add: setupCode_def setup_block_def hasSetup_def setup_pattern_def rx_eval)
  have tm: "tempFilePath ?E a_clock (js ''/w/a.do'') 2 3 = ?tmp"
    by (simp add: tempFilePath_posix d) (simp add: js_def)
  have lg: "logPathOf ?tmp = js ''/w/temp_a_lines_2_3_2024-01-02T03-04-05-678Z.log''"
    by (simp add: logPathOf_def startsWith_def js_def)
  have tx: "header (js ''/w/a.do'') 2 3 a_clock
            @ setupCode (source_slice (js_split 10 ?S) 2 3)
            @ js_join [10] (tagged_slice (js_split 10 ?S) 2 3) @ trailer = ?T"
    by (simp only: ss sc ts append_assoc)
  have ne: "?T \<noteq> []"
    by (simp add: header_def)
  let ?w1 = "?w\<lparr>files := (files ?w)(?tmp \<mapsto> ?T)\<rparr>"
  have f1: "files ?w1 ?tmp = Some ?T"
    by simp
  have ex: "fst (executeDoFile ?E ?w1 ?tmp)
      = Inr \<lparr>success = True, outputText = ?T, logPath = logPathOf ?tmp\<rparr>"
    by (rule executeDoFile_echo [OF f1 ne])
  from extract_range_exact [OF h, of a_clock ?E]
  have "executeSelectedLines ?E a_clock ?w (js ''/w/a.do'') 2 3
      = (case executeDoFile ?E ?w1 ?tmp of
           (Inr result, w2) \<Rightarrow>
             (Inr (result\<lparr>outputText :=
                     enhancedOutput (js ''/w/a.do'') 2 3 (outputText result)\<rparr>),
              cleanup w2 ?tmp)
         | (Inl e, w2) \<Rightarrow> (Inl (SelectedLinesFailed e), cleanup w2 ?tmp))"
    by (simp only: tm tx)
  then have "fst (executeSelectedLines ?E a_clock ?w (js ''/w/a.do'') 2 3)
      = Inr \<lparr>success = True, outputText = enhancedOutput (js ''/w/a.do'') 2 3 ?T,
             logPath = logPathOf ?tmp\<rparr>"
    using ex by (simp split: prod.splits sum.splits)
  with h ss show ?thesis
    by (simp only: lg)
qed

section \<open>Validation of the line range\<close>

text \<open>
  Claim C4.  For a request over a script of \<open>N\<close> lines, each of \<open>start > end\<close>,
  \<open>start < 1\<close> and \<open>end > N\<close> makes \<open>executeSelectedLines\<close> fail with a range error and
  no result; the state is the one the call was given, so no file was created and no
  process was spawned, whatever the interpreter is.
\<close>

theorem invalid_range_rejected:
  assumes "files w filePath = Some content"
    and "startLine > endLine \<or> startLine < 1
         \<or> endLine > int (length (js_split 10 content))"
  shows "\<exists>e. executeSelectedLines E now w filePath startLine endLine
               = (Inl (SelectedLinesFailed e), w)
           \<and> is_range_error e"
proof (cases "startLine < 1 \<or> endLine < 1 \<or> startLine > int (length (js_split 10 content))
              \<or> endLine > int (length (js_split 10 content))")
  case True
  with assms(1) have "executeSelectedLines E now w filePath startLine endLine
      = (Inl (SelectedLinesFailed
                (InvalidLineNumbers startLine endLine (length (js_split 10 content)))), w)"
    by (simp add: executeSelectedLines_def fs_readFile_def Let_def)
  then show ?thesis by simp
next
  case False
  with assms(2) have "startLine > endLine"
    by auto
  with False assms(1) have "executeSelectedLines E now w filePath startLine endLine
      = (Inl (SelectedLinesFailed (StartAfterEnd startLine endLine)), w)"
    by (simp add: executeSelectedLines_def fs_readFile_def Let_def)
  then show ?thesis by simp
qed

theorem invalid_range_rejected_witness:
  "files (a_world (js ''/w/a.do'') (js ''clear all'' @ [10] @ js ''regress y x''))
     (js ''/w/a.do'') = Some (js ''clear all'' @ [10] @ js ''regress y x'')
   \<and> ((2::int) > 1 \<or> (2::int) < 1
       \<or> 1 > int (length (js_split 10 (js ''clear all'' @ [10] @ js ''regress y x''))))
   \<and> executeSelectedLines (posix_env proc_logging) a_clock
         (a_world (js ''/w/a.do'') (js ''clear all'' @ [10] @ js ''regress y x''))
         (js ''/w/a.do'') 2 1
       = (Inl (SelectedLinesFailed (StartAfterEnd 2 1)),
          a_world (js ''/w/a.do'') (js ''clear all'' @ [10] @ js ''regress y x''))
   \<and> (\<exists>e. executeSelectedLines (posix_env proc_logging) a_clock
               (a_world (js ''/w/a.do'') (js ''clear all'' @ [10] @ js ''regress y x''))
               (js ''/w/a.do'') 0 5
             = (Inl (SelectedLinesFailed e),
                a_world (js ''/w/a.do'') (js ''clear all'' @ [10] @ js ''regress y x''))
           \<and> is_range_error e)"
proof -
  let ?S = "js ''clear all'' @ [10] @ js ''regress y x''"
  let ?w = "a_world (js ''/w/a.do'') ?S"
  have f: "files ?w (js ''/w/a.do'') = Some ?S"
    by (simp add: a_world_def)
  have v1: "(2::int) > 1 \<or> (2::int) < 1 \<or> 1 > int (length (js_split 10 ?S))"
    by simp
  have v2: "(0::int) > 5 \<or> (0::int) < 1 \<or> 5 > int (length (js_split 10 ?S))"
    by simp
  have n: "js_split 10 ?S = [js ''clear all'', js ''regress y x'']"
    by (simp add: js_def)
  have "executeSelectedLines (posix_env proc_logging) a_clock ?w (js ''/w/a.do'') 2 1
      = (Inl (SelectedLinesFailed (StartAfterEnd 2 1)), ?w)"
    using f n by (simp add: executeSelectedLines_def fs_readFile_def Let_def)
  with f v1 invalid_range_rejected [OF f v2, of "posix_env proc_logging" a_clock]
  show ?thesis
    by blast
qed

section \<open>The synthesized script\<close>

lemma endsWith_append: "endsWith (a @ p) p"
  by (simp add: endsWith_def)

lemma js_join_last: "xs \<noteq> [] \<Longrightarrow> \<exists>pre. js_join sep xs = pre @ last xs"
proof (induction sep xs rule: js_join.induct)
  case (1 sep)
  then show ?case by simp
next
  case (2 sep x)
  show ?case by simp
next
  case (3 sep x y ys)
  then obtain pre where "js_join sep (y # ys) = pre @ last (y # ys)"
    by auto
  then have "js_join sep (x # y # ys) = (x @ sep @ pre) @ last (x # y # ys)"
    by simp
  then show ?case by blast
qed

lemma processedLines_last:
  assumes "ls \<noteq> []"
  shows "last (processedLines startLine ls)
           = js ''* Line '' @ show_int (startLine + int (length ls - 1)) @ [10] @ last ls"
proof -
  from assms have n: "length ls - 1 < length ls"
    by simp
  from assms have "processedLines startLine ls \<noteq> []"
    using processedLines_length [of startLine ls] by (metis length_0_conv)
  then have "last (processedLines startLine ls)
      = processedLines startLine ls ! (length ls - 1)"
    by (simp add: last_conv_nth processedLines_length)
  also have "\<dots> = js ''* Line '' @ show_int (startLine + int (length ls - 1)) @ [10]
                    @ ls ! (length ls - 1)"
    by (rule processedLines_nth [OF n])
  also from assms have "ls ! (length ls - 1) = last ls"
    by (simp add: last_conv_nth)
  finally show ?thesis .
qed

text \<open>
  Claim C7.  Whatever the selected lines are, the synthesized script ends with the
  trailer, whose last line is the termination statement \<open>exit\<close>; a selection whose last
  line is \<open>exit\<close> therefore ends with that line followed by the trailer with the second
  \<open>exit\<close>.
\<close>

theorem termination_always_appended:
  "endsWith (prepareExecutableCode selectedLines originalFilePath startLine endLine now)
     trailer
   \<and> endsWith trailer ([10] @ js ''exit'' @ [10])
   \<and> endsWith (prepareExecutableCode selectedLines originalFilePath startLine endLine now)
       ([10] @ js ''exit'' @ [10])
   \<and> (selectedLines \<noteq> [] \<and> last selectedLines = js ''exit'' \<longrightarrow>
        endsWith (prepareExecutableCode selectedLines originalFilePath startLine endLine now)
          ([10] @ js ''exit'' @ trailer))"
proof -
  let ?code = "prepareExecutableCode selectedLines originalFilePath startLine endLine now"
  let ?front = "header originalFilePath startLine endLine now @ setupCode selectedLines"
  have c: "?code = (?front @ js_join [10] (processedLines startLine selectedLines)) @ trailer"
    by (simp add: prepareExecutableCode_def)
  have t: "trailer = ([10, 10]
      @ [42, 32, 49440, 53469, 46108, 32, 46972, 51064, 32, 49892, 54665, 32, 50756, 47308])
      @ ([10] @ js ''exit'' @ [10])"
    by (simp add: trailer_def)
  have e1: "endsWith ?code trailer"
    by (subst c) (rule endsWith_append)
  have e2: "endsWith trailer ([10] @ js ''exit'' @ [10])"
    by (subst t) (rule endsWith_append)
  have e3: "endsWith ?code ([10] @ js ''exit'' @ [10])"
  proof -
    have "?code = (?front @ js_join [10] (processedLines startLine selectedLines)
                   @ [10, 10]
                   @ [42, 32, 49440, 53469, 46108, 32, 46972, 51064, 32, 49892, 54665, 32,
                      50756, 47308])
                  @ ([10] @ js ''exit'' @ [10])"
      by (subst c, subst t) simp
    then show ?thesis
      by (metis endsWith_append)
  qed
  have e4: "endsWith ?code ([10] @ js ''exit'' @ trailer)"
    if h: "selectedLines \<noteq> [] \<and> last selectedLines = js ''exit''"
  proof -
    from h have "processedLines startLine selectedLines \<noteq> []"
      using processedLines_length [of startLine selectedLines] by (metis length_0_conv)
    from js_join_last [OF this, of "[10]"] obtain pre
      where "js_join [10] (processedLines startLine selectedLines)
               = pre @ last (processedLines startLine selectedLines)"
      by blast
    with h have "js_join [10] (processedLines startLine selectedLines)
        = pre @ js ''* Line '' @ show_int (startLine + int (length selectedLines - 1))
          @ [10] @ js ''exit''"
      by (simp add: processedLines_last)
    with c have "?code
        = (?front @ pre @ js ''* Line ''
           @ show_int (startLine + int (length selectedLines - 1)))
          @ ([10] @ js ''exit'' @ trailer)"
      by simp
    then show ?thesis
      by (metis endsWith_append)
  qed
  from e1 e2 e3 e4 show ?thesis
    by blast
qed

theorem termination_always_appended_witness:
  "[js ''regress y x'', js ''exit''] \<noteq> []
   \<and> last [js ''regress y x'', js ''exit''] = js ''exit''
   \<and> endsWith (prepareExecutableCode [js ''regress y x'', js ''exit''] (js ''/w/a.do'') 7 8
                 a_clock)
       ([10] @ js ''exit'' @ trailer)
   \<and> js_join [10] (processedLines 7 [js ''regress y x'', js ''exit''])
       = js ''* Line 7'' @ [10] @ js ''regress y x'' @ [10] @ js ''* Line 8'' @ [10]
         @ js ''exit''"
proof -
  have h: "[js ''regress y x'', js ''exit''] \<noteq> []
           \<and> last [js ''regress y x'', js ''exit''] = js ''exit''"
    by simp
  have d: "show_int 7 = js ''7''" "show_int 8 = js ''8''"
    by (simp_all add: show_int_def digits.simps js_def)
  have b: "js_join [10] (processedLines 7 [js ''regress y x'', js ''exit''])
      = js ''* Line 7'' @ [10] @ js ''regress y x'' @ [10] @ js ''* Line 8'' @ [10]
        @ js ''exit''"
    using d by (simp add: processedLines_def js_def)
  from termination_always_appended
         [of "[js ''regress y x'', js ''exit'']" "js ''/w/a.do''" 7 8 a_clock] h b
  show ?thesis
    by blast
qed

subsection \<open>The setup pattern against its description\<close>

lemma ci_eq_length: "ci_eq x l \<Longrightarrow> length x = length l"
  unfolding ci_eq_def by (metis length_map)

lemma rx_lit_iff: "rx_lit l k s = (\<exists>x r. s = x @ r \<and> ci_eq x l \<and> k r)"
proof
  assume h: "rx_lit l k s"
  then have "s = take (length l) s @ drop (length l) s"
    and "ci_eq (take (length l) s) l" and "k (drop (length l) s)"
    by (simp_all add: rx_lit_def ci_eq_def)
  then show "\<exists>x r. s = x @ r \<and> ci_eq x l \<and> k r"
    by blast
next
  assume "\<exists>x r. s = x @ r \<and> ci_eq x l \<and> k r"
  then obtain x r where s: "s = x @ r" and c: "ci_eq x l" and k: "k r"
    by blast
  from c have len: "length x = length l"
    by (rule ci_eq_length)
  with s c k show "rx_lit l k s"
    by (simp add: rx_lit_def ci_eq_def)
qed

lemma rx_ws_star_iff: "rx_ws_star k s = (\<exists>g r. s = g @ r \<and> ws_run g \<and> k r)"
proof (induction s)
  case Nil
  show ?case by (simp add: ws_run_def)
next
  case (Cons c cs)
  show ?case
  proof
    assume "rx_ws_star k (c # cs)"
    then consider "k (c # cs)" | "is_ws c" "rx_ws_star k cs"
      by auto
    then show "\<exists>g r. c # cs = g @ r \<and> ws_run g \<and> k r"
    proof cases
      case 1
      then have "c # cs = [] @ (c # cs) \<and> ws_run [] \<and> k (c # cs)"
        by (simp add: ws_run_def)
      then show ?thesis by blast
    next
      case 2
      with Cons.IH obtain g r where "cs = g @ r" "ws_run g" "k r"
        by blast
      with 2 have "c # cs = (c # g) @ r \<and> ws_run (c # g) \<and> k r"
        by (simp add: ws_run_def)
      then show ?thesis by blast
    qed
  next
    assume "\<exists>g r. c # cs = g @ r \<and> ws_run g \<and> k r"
    then obtain g r where s: "c # cs = g @ r" and w: "ws_run g" and k: "k r"
      by blast
    show "rx_ws_star k (c # cs)"
    proof (cases g)
      case Nil
      with s k have "k (c # cs)" by simp
      then show ?thesis by simp
    next
      case (Cons a g')
      with s w have "a = c" "cs = g' @ r" "is_ws c" "ws_run g'"
        by (simp_all add: ws_run_def)
      with k Cons.IH show ?thesis
        by auto
    qed
  qed
qed

lemma rx_ws_plus_iff:
  "rx_ws_plus k s = (\<exists>g r. s = g @ r \<and> g \<noteq> [] \<and> ws_run g \<and> k r)"
proof
  assume "rx_ws_plus k s"
  then obtain c cs where s: "s = c # cs" and c: "is_ws c" and st: "rx_ws_star k cs"
    by (auto simp: rx_ws_plus_def split: list.splits)
  from st obtain g r where "cs = g @ r" "ws_run g" "k r"
    unfolding rx_ws_star_iff by blast
  with s c have "s = (c # g) @ r \<and> c # g \<noteq> [] \<and> ws_run (c # g) \<and> k r"
    by (simp add: ws_run_def)
  then show "\<exists>g r. s = g @ r \<and> g \<noteq> [] \<and> ws_run g \<and> k r"
    by blast
next
  assume "\<exists>g r. s = g @ r \<and> g \<noteq> [] \<and> ws_run g \<and> k r"
  then obtain g r where s: "s = g @ r" and ne: "g \<noteq> []" and w: "ws_run g" and k: "k r"
    by blast
  from ne obtain c g' where g: "g = c # g'"
    by (cases g) auto
  with w have "is_ws c" "ws_run g'"
    by (simp_all add: ws_run_def)
  moreover from \<open>ws_run g'\<close> k have "rx_ws_star k (g' @ r)"
    unfolding rx_ws_star_iff by blast
  ultimately show "rx_ws_plus k s"
    using s g by (simp add: rx_ws_plus_def)
qed

lemma rx_lit_ws_plusI:
  assumes "ci_eq x a" and "g \<noteq> []" and "ws_run g" and "k r"
  shows "rx_lit a (rx_ws_plus k) (x @ g @ r)"
proof -
  from assms(2-4) have "rx_ws_plus k (g @ r)"
    unfolding rx_ws_plus_iff by blast
  with assms(1) show ?thesis
    unfolding rx_lit_iff by blast
qed

lemma rx_lit_ws_plusE:
  assumes "rx_lit a (rx_ws_plus k) s"
  obtains x g r where "s = x @ g @ r" and "ci_eq x a" and "g \<noteq> []" and "ws_run g" and "k r"
proof -
  from assms obtain x t where s: "s = x @ t" and x: "ci_eq x a" and t: "rx_ws_plus k t"
    unfolding rx_lit_iff by blast
  from t obtain g r where "t = g @ r" "g \<noteq> []" "ws_run g" "k r"
    unfolding rx_ws_plus_iff by blast
  with s x that show thesis
    by blast
qed

lemma rx_lit_end_iff: "rx_lit b rx_end s = (\<exists>y r. s = y @ r \<and> ci_eq y b)"
  unfolding rx_lit_iff by (simp add: rx_end_def)

lemma rx_words2:
  "rx_lit a (rx_ws_plus (rx_lit b rx_end)) s = words2 a b s"
proof
  assume "rx_lit a (rx_ws_plus (rx_lit b rx_end)) s"
  then obtain x g t where s: "s = x @ g @ t" and x: "ci_eq x a" and g: "g \<noteq> []" "ws_run g"
    and t: "rx_lit b rx_end t"
    by (rule rx_lit_ws_plusE)
  from t obtain y r where "t = y @ r" "ci_eq y b"
    unfolding rx_lit_end_iff by blast
  with s x g show "words2 a b s"
    unfolding words2_def by blast
next
  assume "words2 a b s"
  then obtain x g y r where s: "s = x @ g @ y @ r" and x: "ci_eq x a"
    and g: "g \<noteq> []" "ws_run g" and y: "ci_eq y b"
    unfolding words2_def by blast
  from y have "rx_lit b rx_end (y @ r)"
    unfolding rx_lit_end_iff by blast
  with x g have "rx_lit a (rx_ws_plus (rx_lit b rx_end)) (x @ g @ y @ r)"
    by (rule rx_lit_ws_plusI)
  with s show "rx_lit a (rx_ws_plus (rx_lit b rx_end)) s"
    by simp
qed

lemma rx_words3:
  "rx_lit a (rx_ws_plus (rx_lit b (rx_ws_plus (rx_lit c rx_end)))) s = words3 a b c s"
proof
  assume "rx_lit a (rx_ws_plus (rx_lit b (rx_ws_plus (rx_lit c rx_end)))) s"
  then obtain x g t where s: "s = x @ g @ t" and x: "ci_eq x a" and g: "g \<noteq> []" "ws_run g"
    and t: "rx_lit b (rx_ws_plus (rx_lit c rx_end)) t"
    by (rule rx_lit_ws_plusE)
  from t obtain y h u where t': "t = y @ h @ u" and y: "ci_eq y b"
    and h: "h \<noteq> []" "ws_run h" and u: "rx_lit c rx_end u"
    by (rule rx_lit_ws_plusE)
  from u obtain z r where "u = z @ r" "ci_eq z c"
    unfolding rx_lit_end_iff by blast
  with s t' x g y h have "s = x @ g @ y @ h @ z @ r \<and> ci_eq x a \<and> g \<noteq> [] \<and> ws_run g
      \<and> ci_eq y b \<and> h \<noteq> [] \<and> ws_run h \<and> ci_eq z c"
    by simp
  then show "words3 a b c s"
    unfolding words3_def by blast
next
  assume "words3 a b c s"
  then obtain x g y h z r where s: "s = x @ g @ y @ h @ z @ r" and x: "ci_eq x a"
    and g: "g \<noteq> []" "ws_run g" and y: "ci_eq y b" and h: "h \<noteq> []" "ws_run h"
    and z: "ci_eq z c"
    unfolding words3_def by blast
  from z have "rx_lit c rx_end (z @ r)"
    unfolding rx_lit_end_iff by blast
  with y h have "rx_lit b (rx_ws_plus (rx_lit c rx_end)) (y @ h @ z @ r)"
    by (rule rx_lit_ws_plusI)
  with x g have "rx_lit a (rx_ws_plus (rx_lit b (rx_ws_plus (rx_lit c rx_end))))
                   (x @ g @ y @ h @ z @ r)"
    by (rule rx_lit_ws_plusI)
  with s show "rx_lit a (rx_ws_plus (rx_lit b (rx_ws_plus (rx_lit c rx_end)))) s"
    by simp
qed

lemma setup_pattern_spec: "setup_pattern line = spec_setup_statement line"
  unfolding setup_pattern_def spec_setup_statement_def rx_ws_star_iff rx_words2 rx_words3
  by (rule refl)


text \<open>
  Claim C6.  The test \<open>hasSetup\<close> holds exactly when some selected line is a recognized
  setup statement (leading white space, then the words of \<open>clear all\<close>, \<open>set more off\<close> or
  \<open>capture log close\<close> in any letter case).  When no selected line is such a statement,
  the synthesized script has the setup block between the header and the selected lines:
  the comment line (star, space, U+AE30 U+BCF8, space, U+C124 U+C815), the statements
  \<open>set more off\<close> and \<open>capture log close\<close>, each on its line, and an empty line.  When some
  selected line is such a statement, the selected lines follow the header at once.
\<close>

theorem setup_block_iff_no_setup_statement:
  "hasSetup selectedLines = (\<exists>l \<in> set selectedLines. spec_setup_statement l)
   \<and> prepareExecutableCode selectedLines originalFilePath startLine endLine now
       = header originalFilePath startLine endLine now
         @ (if \<exists>l \<in> set selectedLines. spec_setup_statement l then []
            else [42, 32, 44592, 48376, 32, 49444, 51221] @ [10] @ js ''set more off'' @ [10]
                 @ js ''capture log close'' @ [10, 10])
         @ js_join [10] (processedLines startLine selectedLines) @ trailer"
proof -
  have h: "hasSetup selectedLines = (\<exists>l \<in> set selectedLines. spec_setup_statement l)"
    by (simp add: hasSetup_def list_ex_iff setup_pattern_spec)
  have b: "setup_block = [42, 32, 44592, 48376, 32, 49444, 51221] @ [10] @ js ''set more off''
                         @ [10] @ js ''capture log close'' @ [10, 10]"
    by (simp add: setup_block_def)
  from h show ?thesis
    by (simp add: prepareExecutableCode_def setupCode_def b)
qed

theorem setup_block_iff_no_setup_statement_witness:
  "(\<exists>l \<in> set [js ''use d'', [32, 9] @ js ''CLEAR   All, nolog'']. spec_setup_statement l)
   \<and> prepareExecutableCode [js ''use d'', [32, 9] @ js ''CLEAR   All, nolog''] (js ''/w/a.do'')
         3 4 a_clock
       = header (js ''/w/a.do'') 3 4 a_clock
         @ js ''* Line 3'' @ [10] @ js ''use d'' @ [10]
         @ js ''* Line 4'' @ [10] @ [32, 9] @ js ''CLEAR   All, nolog''
         @ trailer
   \<and> \<not> (\<exists>l \<in> set [js ''use d'', js ''* clear all'']. spec_setup_statement l)
   \<and> prepareExecutableCode [js ''use d'', js ''* clear all''] (js ''/w/a.do'') 3 4 a_clock
       = header (js ''/w/a.do'') 3 4 a_clock
         @ [42, 32, 44592, 48376, 32, 49444, 51221] @ [10] @ js ''set more off'' @ [10]
         @ js ''capture log close'' @ [10, 10]
         @ js ''* Line 3'' @ [10] @ js ''use d'' @ [10]
         @ js ''* Line 4'' @ [10] @ js ''* clear all''
         @ trailer"
proof -
  have y: "hasSetup [js ''use d'', [32, 9] @ js ''CLEAR   All, nolog'']"
    by (simp add: hasSetup_def setup_pattern_def rx_eval)
  have n: "\<not> hasSetup [js ''use d'', js ''* clear all'']"
    by (simp add: hasSetup_def setup_pattern_def rx_eval)
  have d: "show_int 3 = js ''3''" "show_int 4 = js ''4''"
    by (simp_all add: show_int_def digits.simps js_def)
  have p: "js_join [10] (processedLines 3 [js ''use d'', [32, 9] @ js ''CLEAR   All, nolog''])
      = js ''* Line 3'' @ [10] @ js ''use d'' @ [10]
        @ js ''* Line 4'' @ [10] @ [32, 9] @ js ''CLEAR   All, nolog''"
    "js_join [10] (processedLines 3 [js ''use d'', js ''* clear all''])
      = js ''* Line 3'' @ [10] @ js ''use d'' @ [10] @ js ''* Line 4'' @ [10] @ js ''* clear all''"
    using d by (simp_all add: processedLines_def js_def)
  note a = setup_block_iff_no_setup_statement
      [of "[js ''use d'', [32, 9] @ js ''CLEAR   All, nolog'']" "js ''/w/a.do''" 3 4 a_clock]
  note b = setup_block_iff_no_setup_statement
      [of "[js ''use d'', js ''* clear all'']" "js ''/w/a.do''" 3 4 a_clock]
  from a y have sa: "\<exists>l \<in> set [js ''use d'', [32, 9] @ js ''CLEAR   All, nolog''].
                       spec_setup_statement l"
    by blast
  from b n have sb: "\<not> (\<exists>l \<in> set [js ''use d'', js ''* clear all'']. spec_setup_statement l)"
    by blast
  from a have ea: "prepareExecutableCode [js ''use d'', [32, 9] @ js ''CLEAR   All, nolog'']
        (js ''/w/a.do'') 3 4 a_clock
      = header (js ''/w/a.do'') 3 4 a_clock
        @ js ''* Line 3'' @ [10] @ js ''use d'' @ [10]
        @ js ''* Line 4'' @ [10] @ [32, 9] @ js ''CLEAR   All, nolog''
        @ trailer"
    by (simp only: sa p if_True append_Nil append_assoc)
  from b have eb: "prepareExecutableCode [js ''use d'', js ''* clear all''] (js ''/w/a.do'') 3 4
        a_clock
      = header (js ''/w/a.do'') 3 4 a_clock
        @ [42, 32, 44592, 48376, 32, 49444, 51221] @ [10] @ js ''set more off'' @ [10]
        @ js ''capture log close'' @ [10, 10]
        @ js ''* Line 3'' @ [10] @ js ''use d'' @ [10]
        @ js ''* Line 4'' @ [10] @ js ''* clear all''
        @ trailer"
    by (simp only: sb p if_False append_assoc)
  from sa sb ea eb show ?thesis
    by blast
qed

section \<open>Running the interpreter\<close>

text \<open>
  Claim C8, as the code has it.  When the interpreter cannot be launched, \<open>executeDoFile\<close>
  fails with the spawn error, and in no other case; when the process closes, it returns a
  result, whose flag \<open>success\<close> is true exactly when the exit code is 0 and the log file
  can be read: any other exit code, and a missing log file, give a normal result with
  \<open>success = false\<close>.
\<close>

theorem success_iff_exit_zero_and_log:
  "(case run_process E w doFilePath of
      SpawnError m \<Rightarrow> fst (executeDoFile E w doFilePath) = Inl (SpawnFailed m)
    | Close code out errorOutput files' \<Rightarrow>
        (\<exists>result. fst (executeDoFile E w doFilePath) = Inr result
           \<and> success result = (code = Some 0 \<and> files' (logPathOf doFilePath) \<noteq> None)))"
  by (cases "run_process E w doFilePath")
     (auto simp: executeDoFile_def fs_readFile_def Let_def split: option.splits)

text \<open>
  The claim as stated fails where the process exits with code 0 and leaves no log file:
  the result is a failure.
\<close>

theorem exit_zero_without_log_counterexample:
  "run_process (posix_env proc_silent) (a_world (js ''/w/a.do'') (js ''display 1''))
     (js ''/w/a.do'')
     = Close (Some 0) (js ''hello'') [] [js ''/w/a.do'' \<mapsto> js ''display 1'']
   \<and> (case fst (executeDoFile (posix_env proc_silent)
                   (a_world (js ''/w/a.do'') (js ''display 1'')) (js ''/w/a.do'')) of
        Inl e \<Rightarrow> False
      | Inr result \<Rightarrow> success result = False \<and> logPath result = js ''/w/a.log'')"
  by (simp add: run_process_def executeDoFile_def fs_readFile_def logPathOf_def
      proc_silent_def posix_eval js_def)

text \<open>
  Claim C9, as the code has it.  When the process has closed and the log file can be
  read, the output is chosen by the precedence of the specification: the content of the
  log if it is not empty, else the standard output, else the standard error.  When the
  log file cannot be read, the output is the standard error if it is not empty, else the
  message of the read error behind a fixed prefix; the standard output is not used.
\<close>

theorem output_precedence:
  "(case run_process E w doFilePath of
      SpawnError m \<Rightarrow> fst (executeDoFile E w doFilePath) = Inl (SpawnFailed m)
    | Close code out errorOutput files' \<Rightarrow>
        (\<exists>result. fst (executeDoFile E w doFilePath) = Inr result
           \<and> outputText result
               = (case files' (logPathOf doFilePath) of
                    Some logContent \<Rightarrow> spec_output (Some logContent) out errorOutput
                  | None \<Rightarrow>
                      or_else errorOutput
                        ([49892, 54665, 32, 50724, 47448, 58, 32]
                         @ message (ENOENT (js ''open'') (logPathOf doFilePath))))))"
  by (cases "run_process E w doFilePath")
     (auto simp: executeDoFile_def fs_readFile_def spec_output_def Let_def
        split: option.splits)

text \<open>
  The claim as stated fails where no log file was written: the standard output
  \<open>hello\<close> is passed over for the error message.
\<close>

theorem stdout_ignored_without_log_counterexample:
  "run_process (posix_env proc_silent) (a_world (js ''/w/b.do'') (js ''display 2''))
     (js ''/w/b.do'')
     = Close (Some 0) (js ''hello'') [] [js ''/w/b.do'' \<mapsto> js ''display 2'']
   \<and> spec_output None (js ''hello'') [] = js ''hello''
   \<and> (case fst (executeDoFile (posix_env proc_silent)
                   (a_world (js ''/w/b.do'') (js ''display 2'')) (js ''/w/b.do'')) of
        Inl e \<Rightarrow> False
      | Inr result \<Rightarrow>
          outputText result
            = [49892, 54665, 32, 50724, 47448, 58, 32]
              @ js ''ENOENT: no such file or directory, open '' @ [39] @ js ''/w/b.log'' @ [39]
          \<and> outputText result \<noteq> js ''hello'')"
  by (simp add: run_process_def executeDoFile_def fs_readFile_def logPathOf_def
      proc_silent_def posix_eval js_def spec_output_def or_else_def)

section \<open>The tool \<open>edit_do_file\<close> with an unknown operation\<close>

lemma edit_operation_other:
  assumes "op \<noteq> js ''add_variable''" and "op \<noteq> js ''add_analysis''"
    and "op \<noteq> js ''insert_section''"
  shows "edit_operation E w filePath op ps = (Inr (), w)"
  using assms by (simp add: edit_operation_def)

lemma createBackup_absent:
  assumes "files w (resolvePath E filePath) = None"
  shows "createBackup E now w filePath
           = (Inl (ENOENT2 (js ''copyfile'') (resolvePath E filePath)
                     (backupPath E now filePath)), w)"
  using assms by (simp add: createBackup_def fs_copyFile_def)

text \<open>
  Claim C10, as the code has it.  For a call of \<open>edit_do_file\<close> with all three arguments
  present and an operation that is none of \<open>add_variable\<close>, \<open>add_analysis\<close> and
  \<open>insert_section\<close>: if the target file exists, the handler copies it to its backup
  path, changes nothing else, and answers with the text "file modified" (U+D30C U+C77C
  U+C774 ..., a line of 80 equals signs) followed by the unchanged content, which is not
  the error text of the outer \<open>catch\<close>; if the target file does not exist, the backup fails,
  and the handler answers with the error text of the rejected copy and changes nothing.
\<close>

theorem unknown_operation_reports_modified:
  assumes "filePath \<noteq> []" and "op \<noteq> []"
    and "op \<noteq> js ''add_variable''" and "op \<noteq> js ''add_analysis''"
    and "op \<noteq> js ''insert_section''"
  shows "(\<forall>S. files w (resolvePath E filePath) = Some S \<longrightarrow>
            edit_do_file E now w
              (Some \<lparr>file_path = Some filePath, operation = Some op, params = Some ps\<rparr>)
              = ([54028, 51068, 51060, 32, 49688, 51221, 46104, 50632, 49845, 45768, 45796, 46]
                 @ [10, 10] @ [49688, 51221, 46108, 32, 45236, 50857, 58] @ [10]
                 @ replicate 80 61 @ [10] @ S,
                 w\<lparr>files := (files w)(backupPath E now filePath \<mapsto> S)\<rparr>)
          \<and> \<not> startsWith
                ([54028, 51068, 51060, 32, 49688, 51221, 46104, 50632, 49845, 45768, 45796, 46]
                 @ [10, 10] @ [49688, 51221, 46108, 32, 45236, 50857, 58] @ [10]
                 @ replicate 80 61 @ [10] @ S)
                [50724, 47448, 32, 48156, 49373, 58, 32]
          \<and> files (w\<lparr>files := (files w)(backupPath E now filePath \<mapsto> S)\<rparr>)
              (backupPath E now filePath) = Some S
          \<and> files (w\<lparr>files := (files w)(backupPath E now filePath \<mapsto> S)\<rparr>)
              (resolvePath E filePath) = Some S)
       \<and> (files w (resolvePath E filePath) = None \<longrightarrow>
            edit_do_file E now w
              (Some \<lparr>file_path = Some filePath, operation = Some op, params = Some ps\<rparr>)
              = ([50724, 47448, 32, 48156, 49373, 58, 32]
                 @ js ''ENOENT: no such file or directory, copyfile '' @ [39]
                 @ resolvePath E filePath @ [39] @ js '' -> '' @ [39]
                 @ backupPath E now filePath @ [39],
                 w))"
proof (intro conjI allI impI)
  fix S
  assume f: "files w (resolvePath E filePath) = Some S"
  let ?w1 = "w\<lparr>files := (files w)(backupPath E now filePath \<mapsto> S)\<rparr>"
  have b: "createBackup E now w filePath = (Inr (backupPath E now filePath), ?w1)"
    by (rule createBackup_present [OF f])
  have o: "edit_operation E ?w1 filePath op ps = (Inr (), ?w1)"
    by (rule edit_operation_other [OF assms(3-5)])
  show r: "files ?w1 (resolvePath E filePath) = Some S"
    using f by simp
  then have rd: "readFile E ?w1 filePath = Inr S"
    by (simp add: readFile_def fs_readFile_def)
  from assms(1,2) b o rd
  show "edit_do_file E now w
          (Some \<lparr>file_path = Some filePath, operation = Some op, params = Some ps\<rparr>)
        = ([54028, 51068, 51060, 32, 49688, 51221, 46104, 50632, 49845, 45768, 45796, 46]
           @ [10, 10] @ [49688, 51221, 46108, 32, 45236, 50857, 58] @ [10]
           @ replicate 80 61 @ [10] @ S, ?w1)"
    by (simp add: edit_do_file_def falsy_def modified_text_def)
  show "\<not> startsWith
          ([54028, 51068, 51060, 32, 49688, 51221, 46104, 50632, 49845, 45768, 45796, 46]
           @ [10, 10] @ [49688, 51221, 46108, 32, 45236, 50857, 58] @ [10]
           @ replicate 80 61 @ [10] @ S)
          [50724, 47448, 32, 48156, 49373, 58, 32]"
    by (simp add: startsWith_def)
  show "files ?w1 (backupPath E now filePath) = Some S"
    by simp
next
  assume f: "files w (resolvePath E filePath) = None"
  from assms(1,2) createBackup_absent [OF f, of now]
  show "edit_do_file E now w
          (Some \<lparr>file_path = Some filePath, operation = Some op, params = Some ps\<rparr>)
        = ([50724, 47448, 32, 48156, 49373, 58, 32]
           @ js ''ENOENT: no such file or directory, copyfile '' @ [39]
           @ resolvePath E filePath @ [39] @ js '' -> '' @ [39]
           @ backupPath E now filePath @ [39], w)"
    by (simp add: edit_do_file_def falsy_def error_text_def) (simp add: js_def)
qed


theorem unknown_operation_reports_modified_witness:
  "js ''a.do'' \<noteq> [] \<and> js ''rename_variable'' \<noteq> []
   \<and> js ''rename_variable'' \<noteq> js ''add_variable''
   \<and> js ''rename_variable'' \<noteq> js ''add_analysis''
   \<and> js ''rename_variable'' \<noteq> js ''insert_section''
   \<and> files (a_world (js ''/w/a.do'') (js ''clear all''))
        (resolvePath (posix_env proc_missing) (js ''a.do'')) = Some (js ''clear all'')
   \<and> backupPath (posix_env proc_missing) a_clock (js ''a.do'')
       = js ''/w/.stata-backups/a.do.2024-01-02T03-04-05-678Z.bak''
   \<and> edit_do_file (posix_env proc_missing) a_clock
         (a_world (js ''/w/a.do'') (js ''clear all''))
         (Some \<lparr>file_path = Some (js ''a.do''), operation = Some (js ''rename_variable''),
                params = Some \<lparr>p_name = Some (js ''x''), p_definition = None, p_label = None,
                                p_type = None, p_specification = None, p_section = None,
                                p_content = None, p_position = None\<rparr>\<rparr>)
       = ([54028, 51068, 51060, 32, 49688, 51221, 46104, 50632, 49845, 45768, 45796, 46]
          @ [10, 10] @ [49688, 51221, 46108, 32, 45236, 50857, 58] @ [10]
          @ replicate 80 61 @ [10] @ js ''clear all'',
          \<lparr>files = [js ''/w/a.do'' \<mapsto> js ''clear all'',
                     js ''/w/.stata-backups/a.do.2024-01-02T03-04-05-678Z.bak''
                       \<mapsto> js ''clear all''],
           console = [], spawned = [], unlink_denied = {}\<rparr>)
   \<and> files (a_world (js ''/w/a.do'') (js ''clear all''))
        (resolvePath (posix_env proc_missing) (js ''c.do'')) = None
   \<and> edit_do_file (posix_env proc_missing) a_clock
         (a_world (js ''/w/a.do'') (js ''clear all''))
         (Some \<lparr>file_path = Some (js ''c.do''), operation = Some (js ''rename_variable''),
                params = Some \<lparr>p_name = Some (js ''x''), p_definition = None, p_label = None,
                                p_type = None, p_specification = None, p_section = None,
                                p_content = None, p_position = None\<rparr>\<rparr>)
       = ([50724, 47448, 32, 48156, 49373, 58, 32]
          @ js ''ENOENT: no such file or directory, copyfile '' @ [39] @ js ''/w/c.do'' @ [39]
          @ js '' -> '' @ [39] @ js ''/w/.stata-backups/c.do.2024-01-02T03-04-05-678Z.bak''
          @ [39],
          a_world (js ''/w/a.do'') (js ''clear all''))"
proof -
  let ?E = "posix_env proc_missing"
  let ?w = "a_world (js ''/w/a.do'') (js ''clear all'')"
  let ?ps = "\<lparr>p_name = Some (js ''x''), p_definition = None, p_label = None,
              p_type = None, p_specification = None, p_section = None,
              p_content = None, p_position = None\<rparr>"
  have na: "js ''a.do'' \<noteq> []" and nc: "js ''c.do'' \<noteq> []"
    and no: "js ''rename_variable'' \<noteq> []"
    "js ''rename_variable'' \<noteq> js ''add_variable''"
    "js ''rename_variable'' \<noteq> js ''add_analysis''"
    "js ''rename_variable'' \<noteq> js ''insert_section''"
    by (simp_all add: js_def)
  have ra: "resolvePath ?E (js ''a.do'') = js ''/w/a.do''"
    and rc: "resolvePath ?E (js ''c.do'') = js ''/w/c.do''"
    by (simp_all add: posix_eval js_def)
  have fa: "files ?w (resolvePath ?E (js ''a.do'')) = Some (js ''clear all'')"
    by (simp add: ra a_world_def)
  have fc: "files ?w (resolvePath ?E (js ''c.do'')) = None"
    by (simp only: rc) (simp add: a_world_def js_def)
  have ba: "backupPath ?E a_clock (js ''a.do'')
      = js ''/w/.stata-backups/a.do.2024-01-02T03-04-05-678Z.bak''"
    and bc: "backupPath ?E a_clock (js ''c.do'')
      = js ''/w/.stata-backups/c.do.2024-01-02T03-04-05-678Z.bak''"
    by (simp_all add: backupPath_def backupsDir_def a_clock_def replace_colons_dots_def
        posix_eval js_def)
  have w1: "?w\<lparr>files := (files ?w)(js ''/w/.stata-backups/a.do.2024-01-02T03-04-05-678Z.bak''
                              \<mapsto> js ''clear all'')\<rparr>
      = \<lparr>files = [js ''/w/a.do'' \<mapsto> js ''clear all'',
                   js ''/w/.stata-backups/a.do.2024-01-02T03-04-05-678Z.bak''
                     \<mapsto> js ''clear all''],
         console = [], spawned = [], unlink_denied = {}\<rparr>"
    by (simp add: a_world_def)
  note ta = unknown_operation_reports_modified [OF na no, of ?w ?E a_clock ?ps]
  note tc = unknown_operation_reports_modified [OF nc no, of ?w ?E a_clock ?ps]
  from ta fa have ea: "edit_do_file ?E a_clock ?w
       (Some \<lparr>file_path = Some (js ''a.do''), operation = Some (js ''rename_variable''),
              params = Some ?ps\<rparr>)
      = ([54028, 51068, 51060, 32, 49688, 51221, 46104, 50632, 49845, 45768, 45796, 46]
         @ [10, 10] @ [49688, 51221, 46108, 32, 45236, 50857, 58] @ [10]
         @ replicate 80 61 @ [10] @ js ''clear all'',
         \<lparr>files = [js ''/w/a.do'' \<mapsto> js ''clear all'',
                    js ''/w/.stata-backups/a.do.2024-01-02T03-04-05-678Z.bak''
                      \<mapsto> js ''clear all''],
          console = [], spawned = [], unlink_denied = {}\<rparr>)"
    by (simp only: ba w1 [symmetric])
  from tc fc have ec: "edit_do_file ?E a_clock ?w
       (Some \<lparr>file_path = Some (js ''c.do''), operation = Some (js ''rename_variable''),
              params = Some ?ps\<rparr>)
      = ([50724, 47448, 32, 48156, 49373, 58, 32]
         @ js ''ENOENT: no such file or directory, copyfile '' @ [39] @ js ''/w/c.do'' @ [39]
         @ js '' -> '' @ [39] @ js ''/w/.stata-backups/c.do.2024-01-02T03-04-05-678Z.bak''
         @ [39], ?w)"
    by (simp only: rc bc)
  from na no fa ba ea fc ec show ?thesis
    by blast
qed

text \<open>
  The claim as stated fails where the target file does not exist: the backup is
  rejected, no backup is made, and the answer is the error text.
\<close>

theorem missing_target_counterexample:
  "js ''b.do'' \<noteq> [] \<and> js ''rename_variable'' \<noteq> []
   \<and> js ''rename_variable'' \<noteq> js ''add_variable''
   \<and> js ''rename_variable'' \<noteq> js ''add_analysis''
   \<and> js ''rename_variable'' \<noteq> js ''insert_section''
   \<and> edit_do_file (posix_env proc_missing) a_clock
         (a_world (js ''/w/a.do'') (js ''clear all''))
         (Some \<lparr>file_path = Some (js ''b.do''), operation = Some (js ''rename_variable''),
                params = Some \<lparr>p_name = Some (js ''x''), p_definition = None, p_label = None,
                                p_type = None, p_specification = None, p_section = None,
                                p_content = None, p_position = None\<rparr>\<rparr>)
       = ([50724, 47448, 32, 48156, 49373, 58, 32]
          @ js ''ENOENT: no such file or directory, copyfile '' @ [39] @ js ''/w/b.do'' @ [39]
          @ js '' -> '' @ [39] @ js ''/w/.stata-backups/b.do.2024-01-02T03-04-05-678Z.bak''
          @ [39],
          a_world (js ''/w/a.do'') (js ''clear all''))
   \<and> files (a_world (js ''/w/a.do'') (js ''clear all''))
        (js ''/w/.stata-backups/b.do.2024-01-02T03-04-05-678Z.bak'') = None
   \<and> startsWith
        ([50724, 47448, 32, 48156, 49373, 58, 32]
         @ js ''ENOENT: no such file or directory, copyfile '' @ [39] @ js ''/w/b.do'' @ [39]
         @ js '' -> '' @ [39] @ js ''/w/.stata-backups/b.do.2024-01-02T03-04-05-678Z.bak''
         @ [39])
        [50724, 47448, 32, 48156, 49373, 58, 32]"
proof -
  let ?E = "posix_env proc_missing"
  let ?w = "a_world (js ''/w/a.do'') (js ''clear all'')"
  have n: "js ''b.do'' \<noteq> []" "js ''rename_variable'' \<noteq> []"
    "js ''rename_variable'' \<noteq> js ''add_variable''"
    "js ''rename_variable'' \<noteq> js ''add_analysis''"
    "js ''rename_variable'' \<noteq> js ''insert_section''"
    by (simp_all add: js_def)
  have rb: "resolvePath ?E (js ''b.do'') = js ''/w/b.do''"
    by (simp add: posix_eval js_def)
  have bb: "backupPath ?E a_clock (js ''b.do'')
      = js ''/w/.stata-backups/b.do.2024-01-02T03-04-05-678Z.bak''"
    by (simp add: backupPath_def backupsDir_def a_clock_def replace_colons_dots_def
        posix_eval js_def)
  have fb: "files ?w (js ''/w/b.do'') = None"
    "files ?w (js ''/w/.stata-backups/b.do.2024-01-02T03-04-05-678Z.bak'') = None"
    by (simp_all add: a_world_def js_def)
  have cb: "createBackup ?E a_clock ?w (js ''b.do'')
      = (Inl (ENOENT2 (js ''copyfile'') (js ''/w/b.do'')
                (js ''/w/.stata-backups/b.do.2024-01-02T03-04-05-678Z.bak'')), ?w)"
    by (simp add: createBackup_def fs_copyFile_def rb bb fb)
  have ed: "edit_do_file ?E a_clock ?w
       (Some \<lparr>file_path = Some (js ''b.do''), operation = Some (js ''rename_variable''),
              params = Some \<lparr>p_name = Some (js ''x''), p_definition = None, p_label = None,
                              p_type = None, p_specification = None, p_section = None,
                              p_content = None, p_position = None\<rparr>\<rparr>)
      = ([50724, 47448, 32, 48156, 49373, 58, 32]
         @ js ''ENOENT: no such file or directory, copyfile '' @ [39] @ js ''/w/b.do'' @ [39]
         @ js '' -> '' @ [39] @ js ''/w/.stata-backups/b.do.2024-01-02T03-04-05-678Z.bak''
         @ [39], ?w)"
    using n by (simp add: edit_do_file_def falsy_def error_text_def cb) (simp add: js_def)
  have sw: "startsWith
        ([50724, 47448, 32, 48156, 49373, 58, 32]
         @ js ''ENOENT: no such file or directory, copyfile '' @ [39] @ js ''/w/b.do'' @ [39]
         @ js '' -> '' @ [39] @ js ''/w/.stata-backups/b.do.2024-01-02T03-04-05-678Z.bak''
         @ [39])
        [50724, 47448, 32, 48156, 49373, 58, 32]"
    by (simp add: startsWith_def)
  from n ed fb(2) sw show ?thesis
    by blast
qed

section \<open>Cleaning up the ephemeral script\<close>



lemma executeDoFile_unlink_denied:
  "unlink_denied (snd (executeDoFile E w p)) = unlink_denied w"
  by (cases "run_process E w p")
     (auto simp: executeDoFile_def fs_readFile_def Let_def split: option.splits)










subsection \<open>A script in a directory whose name contains the extension\<close>

text \<open>
  The log path is derived by replacing the first \<open>.do\<close> of the whole path.  For a script
  in the directory \<open>/v.do\<close> that is the directory's name: the server reads and unlinks
  \<open>/v.log/temp_a_lines_1_1_...do\<close>, and the log file that the interpreter wrote beside
  the ephemeral script is still on storage after the call, with nothing on the console.
\<close>

lemma tempFilePath_directory_example:
  "tempFilePath (posix_env proc) a_clock (js ''/v.do/a.do'') 1 1
     = js ''/v.do/temp_a_lines_1_1_2024-01-02T03-04-05-678Z.do''"
  "logPathOf (js ''/v.do/temp_a_lines_1_1_2024-01-02T03-04-05-678Z.do'')
     = js ''/v.log/temp_a_lines_1_1_2024-01-02T03-04-05-678Z.do''"
  "companion_log (js ''/v.do/temp_a_lines_1_1_2024-01-02T03-04-05-678Z.do'')
     = js ''/v.do/temp_a_lines_1_1_2024-01-02T03-04-05-678Z.log''"
  "indexOf (js ''/v.do/temp_a_lines_1_1_2024-01-02T03-04-05-678Z.do'') (js ''.do'') = Some 2"
  by (simp_all add: tempFilePath_def logPathOf_def companion_log_def a_clock_def
      replace_colons_dots_def show_int_def digits.simps posix_eval js_def)

lemma log_beside_script_example:
  "files (snd (executeSelectedLines (posix_env proc_beside) a_clock
                 (a_world (js ''/v.do/a.do'') (js ''display 1'')) (js ''/v.do/a.do'') 1 1))
     = [js ''/v.do/a.do'' \<mapsto> js ''display 1'',
        js ''/v.do/temp_a_lines_1_1_2024-01-02T03-04-05-678Z.log'' \<mapsto> js ''. done'']"
  "console (snd (executeSelectedLines (posix_env proc_beside) a_clock
                   (a_world (js ''/v.do/a.do'') (js ''display 1'')) (js ''/v.do/a.do'') 1 1))
     = []"
proof -
  let ?w = "a_world (js ''/v.do/a.do'') (js ''display 1'')"
  let ?E = "posix_env proc_beside"
  let ?tmp = "js ''/v.do/temp_a_lines_1_1_2024-01-02T03-04-05-678Z.do''"
  let ?log = "js ''/v.do/temp_a_lines_1_1_2024-01-02T03-04-05-678Z.log''"
  let ?der = "js ''/v.log/temp_a_lines_1_1_2024-01-02T03-04-05-678Z.do''"
  let ?code = "prepareExecutableCode [js ''display 1''] (js ''/v.do/a.do'') 1 1 a_clock"
  have h: "files ?w (js ''/v.do/a.do'') = Some (js ''display 1'')" "(1::int) \<le> 1"
    "(1::int) \<le> 1" "(1::int) \<le> int (length (js_split 10 (js ''display 1'')))"
    by (simp_all add: a_world_def js_def)
  have ne: "?tmp \<noteq> ?log" "?tmp \<noteq> js ''/v.do/a.do''" "?log \<noteq> js ''/v.do/a.do''"
    "?der \<noteq> ?log" "?der \<noteq> ?tmp" "?der \<noteq> js ''/v.do/a.do''"
    by (simp_all add: js_def)
  have sl: "js_slice (js_split 10 (js ''display 1'')) (1 - 1) 1 = [js ''display 1'']"
    by (simp add: js_slice_def js_def)
  have st: "staged ?E a_clock ?w (js ''/v.do/a.do'') (js ''display 1'') 1 1
      = \<lparr>files = [js ''/v.do/a.do'' \<mapsto> js ''display 1'', ?tmp \<mapsto> ?code],
         console = [], spawned = [], unlink_denied = {}\<rparr>"
    using sl by (simp add: staged_def tempFilePath_directory_example fs_writeFile_def a_world_def)
  have r: "run_process ?E (staged ?E a_clock ?w (js ''/v.do/a.do'') (js ''display 1'') 1 1) ?tmp
      = Close (Some 0) [] []
          [js ''/v.do/a.do'' \<mapsto> js ''display 1'', ?tmp \<mapsto> ?code, ?log \<mapsto> js ''. done'']"
    by (simp add: run_process_def st stata_args_example proc_beside_def
        tempFilePath_directory_example posix_env_sel)
  have fr: "files (snd (executeDoFile ?E
                     (staged ?E a_clock ?w (js ''/v.do/a.do'') (js ''display 1'') 1 1) ?tmp))
      = [js ''/v.do/a.do'' \<mapsto> js ''display 1'', ?tmp \<mapsto> ?code, ?log \<mapsto> js ''. done'']"
    by (simp add: executeDoFile_files r)
  have cr: "console (snd (executeDoFile ?E
                     (staged ?E a_clock ?w (js ''/v.do/a.do'') (js ''display 1'') 1 1) ?tmp))
      = []"
    unfolding executeDoFile_def r
    by (simp add: Let_def fs_readFile_def st split: option.splits)
  have ur: "unlink_denied (snd (executeDoFile ?E
                     (staged ?E a_clock ?w (js ''/v.do/a.do'') (js ''display 1'') 1 1) ?tmp))
      = {}"
    by (simp add: executeDoFile_unlink_denied st)
  have s: "snd (executeSelectedLines ?E a_clock ?w (js ''/v.do/a.do'') 1 1)
      = cleanup (snd (executeDoFile ?E
                  (staged ?E a_clock ?w (js ''/v.do/a.do'') (js ''display 1'') 1 1) ?tmp)) ?tmp"
    by (simp add: executeSelectedLines_valid [OF h] tempFilePath_directory_example
        split: prod.splits sum.splits)
  show "files (snd (executeSelectedLines ?E a_clock ?w (js ''/v.do/a.do'') 1 1))
     = [js ''/v.do/a.do'' \<mapsto> js ''display 1'', ?log \<mapsto> js ''. done'']"
    using ne
    by (simp add: s cleanup_def fs_unlink_def fr ur tempFilePath_directory_example
        fun_upd_twist)
  show "console (snd (executeSelectedLines ?E a_clock ?w (js ''/v.do/a.do'') 1 1)) = []"
    using ne
    by (simp add: s cleanup_def fs_unlink_def fr ur cr tempFilePath_directory_example)
qed

end
